theory Spec2Isabelle
  imports Complex_Main "HOL-Library.Sublist" "HOL-Library.List_Lexorder"
begin

section \<open>Strings and constants of the backtest scripts\<close>

text \<open>
  A Python \<open>str\<close> is a sequence of Unicode code points, so it is modelled as a list of
  natural numbers (one per code point). Equality, substring containment (\<open>in\<close>),
  \<open>strip\<close> and the lexicographic order of \<open>sorted\<close> are all defined by Python on code
  points. Python floats are modelled as exact reals: rounding, infinities and NaN are
  outside the model, and a division by zero raises \<open>ZeroDivisionError\<close> as it does for
  Python floats.
\<close>

type_synonym ustr = "nat list"

text \<open>The three signal keywords of \<open>SIGNALS\<close>, in ASCII.\<close>

definition sig_tempeture_index :: ustr where
  "sig_tempeture_index =
     [116, 101, 109, 112, 101, 116, 117, 114, 101, 95, 105, 110, 100, 101, 120]"

definition sig_120_ma :: ustr where
  "sig_120_ma = [49, 50, 48, 95, 109, 97]"

definition sig_ADX :: ustr where
  "sig_ADX = [65, 68, 88]"

definition SIGNALS :: "ustr set" where
  "SIGNALS = {sig_tempeture_index, sig_120_ma, sig_ADX}"

text \<open>
  The four position names of \<open>POSITIONS\<close>: U+7A7A U+4ED3 (flat, no holdings),
  U+73B0 U+8D27 (spot), U+4E00 U+500D U+5408 U+7EA6 (1x contract) and
  U+4E24 U+500D U+5408 U+7EA6 (2x contract).
\<close>

definition pos_flat :: ustr where
  "pos_flat = [0x7A7A, 0x4ED3]"

definition pos_spot :: ustr where
  "pos_spot = [0x73B0, 0x8D27]"

definition pos_1x :: ustr where
  "pos_1x = [0x4E00, 0x500D, 0x5408, 0x7EA6]"

definition pos_2x :: ustr where
  "pos_2x = [0x4E24, 0x500D, 0x5408, 0x7EA6]"

definition POSITIONS :: "ustr set" where
  "POSITIONS = {pos_flat, pos_spot, pos_1x, pos_2x}"

text \<open>
  The two values of the action column that the loop reacts to: U+8FDB U+573A (enter)
  and U+51FA U+573A (exit).
\<close>

definition act_enter :: ustr where
  "act_enter = [0x8FDB, 0x573A]"

definition act_exit :: ustr where
  "act_exit = [0x51FA, 0x573A]"

text \<open>The prefix of the remark written at a switch: U+6362 U+4ED3 U+2192.\<close>

definition remark_prefix :: ustr where
  "remark_prefix = [0x6362, 0x4ED3, 0x2192]"

subsection \<open>\<open>str.strip()\<close>\<close>

text \<open>
  The code points that \<open>str.strip()\<close> without argument removes (those for which
  \<open>str.isspace\<close> holds).
\<close>

definition py_isspace :: "nat \<Rightarrow> bool" where
  "py_isspace c \<longleftrightarrow>
     (0x09 \<le> c \<and> c \<le> 0x0D) \<or> (0x1C \<le> c \<and> c \<le> 0x20) \<or> c = 0x85 \<or> c = 0xA0 \<or>
     c = 0x1680 \<or> (0x2000 \<le> c \<and> c \<le> 0x200A) \<or> c = 0x2028 \<or> c = 0x2029 \<or>
     c = 0x202F \<or> c = 0x205F \<or> c = 0x3000"

definition py_strip :: "ustr \<Rightarrow> ustr" where
  "py_strip s = rev (dropWhile py_isspace (rev (dropWhile py_isspace s)))"

subsection \<open>\<open>normalize_signal\<close>\<close>

text \<open>
  \<open>flexible_backtest.py\<close>, lines 54 to 63 (the same text is in
  \<open>btc_trading_with_backtest.py\<close>, lines 30 to 39). The argument is the label after
  \<open>str(sig)\<close>. \<open>x in sig\<close> on strings is contiguous substring containment.
\<close>

definition normalize_signal :: "ustr \<Rightarrow> ustr" where
  "normalize_signal sig =
     (if sublist sig_tempeture_index sig then sig_tempeture_index
      else if sublist sig_120_ma sig then sig_120_ma
      else if sublist sig_ADX sig then sig_ADX
      else py_strip sig)"

section \<open>The parameterised engine: \<open>flexible_backtest.py\<close>\<close>

subsection \<open>Data\<close>

text \<open>
  One row of the input table, as the loop reads it: the price after
  \<open>float(str(...).replace(",", ""))\<close>, the action column and the raw signal label
  after \<open>str\<close>. Parsing the price text is outside the model: the rows are those
  whose price cell parses (on another cell \<open>float\<close> raises its own \<open>ValueError\<close> at
  line 88, before anything is done for the row).
\<close>

record event =
  price :: real
  action_type :: ustr
  sig_raw :: ustr

text \<open>
  A value of the policy dictionary: a dict of which the engine reads the key
  \<open>"position"\<close> only; the dashboard also stores a key \<open>"ratio"\<close>. A key that is
  not in the dict is \<open>None\<close> here. The dict is falsy exactly when it is empty.
\<close>

record cfg =
  cfg_position :: "ustr option"
  cfg_ratio :: "real option"

definition cfg_truthy :: "cfg \<Rightarrow> bool" where
  "cfg_truthy c \<longleftrightarrow> cfg_position c \<noteq> None \<or> cfg_ratio c \<noteq> None"

text \<open>
  The policy: a dict from frozensets of signal names to such values; \<open>policy.get\<close> is
  the application, \<open>None\<close> for a key that is not there.
\<close>

type_synonym policy = "ustr set \<Rightarrow> cfg option"

text \<open>
  The values of \<open>DEFAULT_POLICY\<close> (lines 41 to 50) have the key \<open>"position"\<close> only.
\<close>

definition only_position :: "ustr \<Rightarrow> cfg" where
  "only_position p = \<lparr>cfg_position = Some p, cfg_ratio = None\<rparr>"

definition DEFAULT_POLICY :: policy where
  "DEFAULT_POLICY =
     [{} \<mapsto> only_position pos_flat,
      {sig_tempeture_index} \<mapsto> only_position pos_spot,
      {sig_120_ma} \<mapsto> only_position pos_spot,
      {sig_ADX} \<mapsto> only_position pos_spot,
      {sig_tempeture_index, sig_120_ma} \<mapsto> only_position pos_1x,
      {sig_tempeture_index, sig_ADX} \<mapsto> only_position pos_1x,
      {sig_120_ma, sig_ADX} \<mapsto> only_position pos_1x,
      {sig_tempeture_index, sig_120_ma, sig_ADX} \<mapsto> only_position pos_2x]"

text \<open>The state variables of \<open>run_backtest\<close> (lines 81 to 85).\<close>

record state =
  usd :: real
  btc :: real
  position :: ustr
  active_signals :: "ustr set"
  last_price :: "real option"

definition init_state :: "real \<Rightarrow> state" where
  "init_state initial_usd =
     \<lparr>usd = initial_usd, btc = 0, position = pos_flat, active_signals = {},
      last_price = None\<rparr>"

text \<open>The five columns written back for a row (lines 143 to 147).\<close>

record row =
  row_position :: ustr
  row_btc :: real
  row_total :: real
  row_signals :: ustr
  row_remark :: ustr

text \<open>
  The exceptions of the loop: the \<open>ValueError\<close> of line 116 with the position name
  it reports, the \<open>ZeroDivisionError\<close> of a float division by zero, and the
  \<open>KeyError\<close> of indexing a dict without the key \<open>"position"\<close>.
\<close>

datatype error = ValueError ustr | ZeroDivisionError | KeyError

definition py_div :: "real \<Rightarrow> real \<Rightarrow> error + real" where
  "py_div a b = (if b = 0 then Inl ZeroDivisionError else Inr (a / b))"

text \<open>
  \<open>",".join(xs)\<close>; the comma is the code point 44.
\<close>

fun join_comma :: "ustr list \<Rightarrow> ustr" where
  "join_comma [] = []"
| "join_comma [x] = x"
| "join_comma (x # y # ys) = x @ [44] @ join_comma (y # ys)"

subsection \<open>The body of the loop\<close>

text \<open>Lines 95 to 98: settlement of the floating profit of a held contract.\<close>

definition settle :: "state \<Rightarrow> real \<Rightarrow> error + state" where
  "settle s p =
     (if position s = pos_1x \<and> last_price s \<noteq> None then
        (case py_div (p - the (last_price s)) (the (last_price s)) of
           Inl e \<Rightarrow> Inl e
         | Inr r \<Rightarrow> Inr (s\<lparr>btc := btc s + r * btc s\<rparr>))
      else if position s = pos_2x \<and> last_price s \<noteq> None then
        (case py_div (2 * (p - the (last_price s))) (the (last_price s)) of
           Inl e \<Rightarrow> Inl e
         | Inr r \<Rightarrow> Inr (s\<lparr>btc := btc s + r * btc s\<rparr>))
      else Inr s)"

text \<open>Lines 101 to 104.\<close>

definition update_last_price :: "state \<Rightarrow> real \<Rightarrow> state" where
  "update_last_price s p =
     (if position s \<in> {pos_1x, pos_2x} then s\<lparr>last_price := Some p\<rparr>
      else s\<lparr>last_price := None\<rparr>)"

text \<open>Lines 107 to 110.\<close>

definition update_signals :: "state \<Rightarrow> event \<Rightarrow> state" where
  "update_signals s ev =
     (if action_type ev = act_enter then
        s\<lparr>active_signals := insert (normalize_signal (sig_raw ev)) (active_signals s)\<rparr>
      else if action_type ev = act_exit then
        s\<lparr>active_signals := active_signals s - {normalize_signal (sig_raw ev)}\<rparr>
      else s)"

text \<open>
  Lines 112 to 116: the lookup, the default of keeping the position, and the check
  against \<open>POSITIONS\<close>. Indexing a non-empty dict that has no key \<open>"position"\<close>
  raises \<open>KeyError\<close>.
\<close>

definition resolve_target :: "policy \<Rightarrow> state \<Rightarrow> error + ustr" where
  "resolve_target pol s =
     (case (case pol (active_signals s) of
              None \<Rightarrow> Inr (position s)
            | Some c \<Rightarrow>
                if cfg_truthy c then
                  (case cfg_position c of None \<Rightarrow> Inl KeyError | Some tp \<Rightarrow> Inr tp)
                else Inr (position s)) of
        Inl e \<Rightarrow> Inl e
      | Inr target_position \<Rightarrow>
          if target_position \<notin> POSITIONS then Inl (ValueError target_position)
          else Inr target_position)"

text \<open>Lines 121 to 127: the old position is turned into USD.\<close>

definition liquidate :: "state \<Rightarrow> real \<Rightarrow> state" where
  "liquidate s p =
     (if position s = pos_spot then s\<lparr>usd := btc s * p, btc := 0\<rparr>
      else if position s \<in> {pos_1x, pos_2x} then s\<lparr>usd := btc s * p, btc := 0\<rparr>
      else s)"

text \<open>Lines 130 to 137: the new position is opened with the whole balance.\<close>

definition reopen :: "state \<Rightarrow> real \<Rightarrow> ustr \<Rightarrow> error + state" where
  "reopen s p target_position =
     (if target_position = pos_spot then
        (case py_div (usd s) p of
           Inl e \<Rightarrow> Inl e
         | Inr q \<Rightarrow> Inr (s\<lparr>usd := 0, btc := q\<rparr>))
      else if target_position \<in> {pos_1x, pos_2x} then
        (case py_div (usd s) p of
           Inl e \<Rightarrow> Inl e
         | Inr q \<Rightarrow> Inr (s\<lparr>usd := 0, btc := q, last_price := Some p\<rparr>))
      else Inr s)"

text \<open>Lines 119 to 139, the body of \<open>if target_position != position\<close>.\<close>

definition switch_position :: "state \<Rightarrow> real \<Rightarrow> ustr \<Rightarrow> error + state" where
  "switch_position s p target_position =
     (case reopen (liquidate s p) p target_position of
        Inl e \<Rightarrow> Inl e
      | Inr s' \<Rightarrow> Inr (s'\<lparr>position := target_position\<rparr>))"

text \<open>Line 142.\<close>

definition total_assets :: "state \<Rightarrow> real \<Rightarrow> real" where
  "total_assets s p = (if usd s > 0 then usd s else btc s * p)"

text \<open>Lines 143 to 147.\<close>

definition make_row :: "state \<Rightarrow> real \<Rightarrow> ustr \<Rightarrow> row" where
  "make_row s p remark =
     \<lparr>row_position = position s, row_btc = btc s, row_total = total_assets s p,
      row_signals = join_comma (sorted_list_of_set (active_signals s)),
      row_remark = remark\<rparr>"

text \<open>One iteration of the loop (lines 87 to 147): the new state and the row written.\<close>

definition step :: "policy \<Rightarrow> state \<Rightarrow> event \<Rightarrow> error + (state \<times> row)" where
  "step pol s ev =
     (case settle s (price ev) of
        Inl e \<Rightarrow> Inl e
      | Inr s1 \<Rightarrow>
          (let s2 = update_signals (update_last_price s1 (price ev)) ev in
           case resolve_target pol s2 of
             Inl e \<Rightarrow> Inl e
           | Inr target_position \<Rightarrow>
               if target_position \<noteq> position s2 then
                 (case switch_position s2 (price ev) target_position of
                    Inl e \<Rightarrow> Inl e
                  | Inr s3 \<Rightarrow>
                      Inr (s3, make_row s3 (price ev) (remark_prefix @ target_position)))
               else Inr (s2, make_row s2 (price ev) [])))"

text \<open>
  The loop over the rows, from a given state: an exception ends the run, and the rows
  written so far are lost with it.
\<close>

fun run_loop :: "policy \<Rightarrow> state \<Rightarrow> event list \<Rightarrow> error + (state \<times> row list)" where
  "run_loop pol s [] = Inr (s, [])"
| "run_loop pol s (ev # evs) =
     (case step pol s ev of
        Inl e \<Rightarrow> Inl e
      | Inr (s', r) \<Rightarrow>
          (case run_loop pol s' evs of
             Inl e \<Rightarrow> Inl e
           | Inr (sf, rs) \<Rightarrow> Inr (sf, r # rs)))"

text \<open>\<open>run_backtest\<close>: the rows of the returned table, for the rows read from the input.\<close>

definition run_backtest :: "policy \<Rightarrow> event list \<Rightarrow> real \<Rightarrow> error + row list" where
  "run_backtest pol events initial_usd =
     (case run_loop pol (init_state initial_usd) events of
        Inl e \<Rightarrow> Inl e
      | Inr (sf, rs) \<Rightarrow> Inr rs)"

section \<open>The script with the fixed policy: \<open>btc_trading_with_backtest.py\<close>\<close>

text \<open>The state variables of the script (lines 20 to 25).\<close>

record script_state =
  current_usd :: real
  current_btc :: real
  current_position :: ustr
  script_active_signals :: "ustr set"
  script_last_price :: "real option"

definition script_init :: script_state where
  "script_init =
     \<lparr>current_usd = 1000, current_btc = 0, current_position = pos_flat,
      script_active_signals = {}, script_last_price = None\<rparr>"

text \<open>\<open>str\<close> of a non-negative integer, as the f-string of line 93 formats \<open>n_signal\<close>.\<close>

function str_nat :: "nat \<Rightarrow> ustr" where
  "str_nat n = (if n < 10 then [48 + n] else str_nat (n div 10) @ [48 + n mod 10])"
  by pat_completeness auto
termination
  by (relation "measure id") auto

text \<open>Lines 51 to 54.\<close>

definition script_settle :: "script_state \<Rightarrow> real \<Rightarrow> error + script_state" where
  "script_settle s p =
     (if current_position s = pos_1x \<and> script_last_price s \<noteq> None then
        (case py_div (p - the (script_last_price s)) (the (script_last_price s)) of
           Inl e \<Rightarrow> Inl e
         | Inr r \<Rightarrow> Inr (s\<lparr>current_btc := current_btc s + r * current_btc s\<rparr>))
      else if current_position s = pos_2x \<and> script_last_price s \<noteq> None then
        (case py_div (2 * (p - the (script_last_price s))) (the (script_last_price s)) of
           Inl e \<Rightarrow> Inl e
         | Inr r \<Rightarrow> Inr (s\<lparr>current_btc := current_btc s + r * current_btc s\<rparr>))
      else Inr s)"

text \<open>Lines 58 and 59: the price is recorded for the spot position too.\<close>

definition script_update_last_price :: "script_state \<Rightarrow> real \<Rightarrow> script_state" where
  "script_update_last_price s p =
     (if current_position s \<noteq> pos_flat then s\<lparr>script_last_price := Some p\<rparr> else s)"

text \<open>Lines 62 to 65.\<close>

definition script_update_signals :: "script_state \<Rightarrow> event \<Rightarrow> script_state" where
  "script_update_signals s ev =
     (if action_type ev = act_enter then
        s\<lparr>script_active_signals :=
             insert (normalize_signal (sig_raw ev)) (script_active_signals s)\<rparr>
      else if action_type ev = act_exit then
        s\<lparr>script_active_signals :=
             script_active_signals s - {normalize_signal (sig_raw ev)}\<rparr>
      else s)"

text \<open>Lines 70 to 75: the target position from the number of active signals.\<close>

definition script_target :: "nat \<Rightarrow> ustr" where
  "script_target n_signal =
     (if n_signal = 0 then pos_flat
      else if n_signal = 1 then pos_spot
      else if n_signal = 2 then pos_1x
      else pos_2x)"

text \<open>Lines 80 to 87.\<close>

definition script_liquidate :: "script_state \<Rightarrow> real \<Rightarrow> script_state" where
  "script_liquidate s p =
     (if current_position s = pos_spot then
        s\<lparr>current_usd := current_btc s * p, current_btc := 0\<rparr>
      else if current_position s \<in> set [pos_1x, pos_2x] then
        s\<lparr>current_usd := current_btc s * p, current_btc := 0\<rparr>
      else s)"

text \<open>
  Lines 90 to 103: the new position and the remark. The remarks are
  U+5207 U+6362 U+4E3A followed by the position name (for spot, also by the number of
  signals in brackets), and U+5168 U+90E8 U+5E73 U+4ED3 U+4E3A U+7A7A U+4ED3.
\<close>

definition script_reopen ::
  "script_state \<Rightarrow> real \<Rightarrow> ustr \<Rightarrow> nat \<Rightarrow> error + (script_state \<times> ustr)" where
  "script_reopen s p target_position n_signal =
     (if target_position = pos_spot then
        (case py_div (current_usd s) p of
           Inl e \<Rightarrow> Inl e
         | Inr q \<Rightarrow>
             Inr (s\<lparr>current_usd := 0, current_btc := q\<rparr>,
                  [0x5207, 0x6362, 0x4E3A] @ pos_spot @ [0x28] @ str_nat n_signal @
                  [0x20, 0x73, 0x69, 0x67, 0x6E, 0x61, 0x6C, 0x29]))
      else if target_position = pos_1x then
        (case py_div (current_usd s) p of
           Inl e \<Rightarrow> Inl e
         | Inr q \<Rightarrow>
             Inr (s\<lparr>current_usd := 0, current_btc := q\<rparr>, [0x5207, 0x6362, 0x4E3A] @ pos_1x))
      else if target_position = pos_2x then
        (case py_div (current_usd s) p of
           Inl e \<Rightarrow> Inl e
         | Inr q \<Rightarrow>
             Inr (s\<lparr>current_usd := 0, current_btc := q\<rparr>, [0x5207, 0x6362, 0x4E3A] @ pos_2x))
      else if target_position = pos_flat then
        Inr (s, [0x5168, 0x90E8, 0x5E73, 0x4ED3, 0x4E3A] @ pos_flat)
      else Inr (s, []))"

text \<open>Lines 78 to 106, the body of \<open>if target_position != current_position\<close>.\<close>

definition script_switch ::
  "script_state \<Rightarrow> real \<Rightarrow> ustr \<Rightarrow> nat \<Rightarrow> error + (script_state \<times> ustr)" where
  "script_switch s p target_position n_signal =
     (case script_reopen (script_liquidate s p) p target_position n_signal of
        Inl e \<Rightarrow> Inl e
      | Inr (s', remark) \<Rightarrow>
          Inr (s'\<lparr>current_position := target_position,
                  script_last_price :=
                    (if target_position \<in> set [pos_1x, pos_2x] then Some p else None)\<rparr>,
               remark))"

text \<open>Lines 109 to 113.\<close>

definition script_row :: "script_state \<Rightarrow> real \<Rightarrow> ustr \<Rightarrow> row" where
  "script_row s p remark =
     \<lparr>row_position = current_position s, row_btc = current_btc s,
      row_total = (if current_usd s > 0 then current_usd s else current_btc s * p),
      row_signals = join_comma (sorted_list_of_set (script_active_signals s)),
      row_remark = remark\<rparr>"

text \<open>One iteration of the loop of the script (lines 42 to 113).\<close>

definition script_step :: "script_state \<Rightarrow> event \<Rightarrow> error + (script_state \<times> row)" where
  "script_step s ev =
     (case script_settle s (price ev) of
        Inl e \<Rightarrow> Inl e
      | Inr s1 \<Rightarrow>
          (let s2 = script_update_signals (script_update_last_price s1 (price ev)) ev;
               n_signal = card (script_active_signals s2);
               target_position = script_target n_signal
           in if target_position \<noteq> current_position s2 then
                (case script_switch s2 (price ev) target_position n_signal of
                   Inl e \<Rightarrow> Inl e
                 | Inr (s3, remark) \<Rightarrow> Inr (s3, script_row s3 (price ev) remark))
              else Inr (s2, script_row s2 (price ev) [])))"

fun script_loop :: "script_state \<Rightarrow> event list \<Rightarrow> error + (script_state \<times> row list)" where
  "script_loop s [] = Inr (s, [])"
| "script_loop s (ev # evs) =
     (case script_step s ev of
        Inl e \<Rightarrow> Inl e
      | Inr (s', r) \<Rightarrow>
          (case script_loop s' evs of
             Inl e \<Rightarrow> Inl e
           | Inr (sf, rs) \<Rightarrow> Inr (sf, r # rs)))"

text \<open>The script: the five columns it writes, for the rows it reads.\<close>

definition script_run :: "event list \<Rightarrow> error + row list" where
  "script_run events =
     (case script_loop script_init events of
        Inl e \<Rightarrow> Inl e
      | Inr (sf, rs) \<Rightarrow> Inr rs)"

section \<open>Predicates of the statements\<close>

text \<open>
  A condition on a run, used to state what the engine guarantees: at no event of the
  run is a 2x contract marked at a price at or below half of its reference price (the
  settlement of line 98 then makes the quantity zero or negative).
\<close>

fun no_2x_wipeout :: "policy \<Rightarrow> state \<Rightarrow> event list \<Rightarrow> bool" where
  "no_2x_wipeout pol s [] = True"
| "no_2x_wipeout pol s (ev # evs) =
     (\<not> (position s = pos_2x \<and>
         (case last_price s of None \<Rightarrow> False | Some l \<Rightarrow> 2 * price ev \<le> l)) \<and>
      (case step pol s ev of
         Inl e \<Rightarrow> True
       | Inr (s', r) \<Rightarrow> no_2x_wipeout pol s' evs))"

text \<open>
  The well-formed accounts: a valid position; all USD and no asset while flat, all asset
  and no USD otherwise; a positive reference price when one is set.
\<close>

definition sound_account :: "state \<Rightarrow> bool" where
  "sound_account s \<longleftrightarrow>
     position s \<in> POSITIONS \<and>
     (position s = pos_flat \<longrightarrow> 0 < usd s \<and> btc s = 0) \<and>
     (position s \<noteq> pos_flat \<longrightarrow> usd s = 0 \<and> 0 < btc s) \<and>
     (case last_price s of None \<Rightarrow> True | Some l \<Rightarrow> 0 < l)"

text \<open>
  The columns that the comparison of the two programs is about: all but the remark.
\<close>

definition same_columns :: "row \<Rightarrow> row \<Rightarrow> bool" where
  "same_columns r r' \<longleftrightarrow>
     row_position r = row_position r' \<and> row_btc r = row_btc r' \<and>
     row_total r = row_total r' \<and> row_signals r = row_signals r'"

text \<open>
  The states of the two programs that agree, the reference price being compared only
  while a contract is held (it is read only then).
\<close>

definition same_account :: "state \<Rightarrow> script_state \<Rightarrow> bool" where
  "same_account s b \<longleftrightarrow>
     usd s = current_usd b \<and> btc s = current_btc b \<and> position s = current_position b \<and>
     active_signals s = script_active_signals b \<and>
     (position s \<in> {pos_1x, pos_2x} \<longrightarrow> last_price s = script_last_price b)"

text \<open>
  What one iteration of each program gives, when the two agree: states that agree, rows
  that agree, and a state of the engine with a valid position and signals among the
  three.
\<close>

definition step_agrees :: "state \<times> row \<Rightarrow> script_state \<times> row \<Rightarrow> bool" where
  "step_agrees x y \<longleftrightarrow>
     same_account (fst x) (fst y) \<and> same_columns (snd x) (snd y) \<and>
     position (fst x) \<in> POSITIONS \<and> active_signals (fst x) \<subseteq> SIGNALS"

section \<open>Policies of the scenarios\<close>

text \<open>The policy of the scenario with one contract: \<open>{ADX}\<close> is the 1x contract.\<close>

definition scenario_B_policy :: policy where
  "scenario_B_policy = [{sig_ADX} \<mapsto> only_position pos_1x]"

text \<open>No signal is flat and \<open>{ADX}\<close> is the 2x contract, resp. the 1x contract.\<close>

definition policy_2x_flat :: policy where
  "policy_2x_flat = [{} \<mapsto> only_position pos_flat, {sig_ADX} \<mapsto> only_position pos_2x]"

definition policy_1x_flat :: policy where
  "policy_1x_flat = [{} \<mapsto> only_position pos_flat, {sig_ADX} \<mapsto> only_position pos_1x]"




text \<open>
  Two policies as the dashboard builds them, with the same positions and different
  ratios.
\<close>

definition policy_ratio_a :: policy where
  "policy_ratio_a =
     [{} \<mapsto> \<lparr>cfg_position = Some pos_flat, cfg_ratio = Some 0\<rparr>,
      {sig_ADX} \<mapsto> \<lparr>cfg_position = Some pos_1x, cfg_ratio = Some 1\<rparr>]"

definition policy_ratio_b :: policy where
  "policy_ratio_b =
     [{} \<mapsto> \<lparr>cfg_position = Some pos_flat, cfg_ratio = Some (1 / 2)\<rparr>,
      {sig_ADX} \<mapsto> \<lparr>cfg_position = Some pos_1x, cfg_ratio = Some (1 / 10)\<rparr>]"

text \<open>
  The policy that maps \<open>{ADX}\<close> to the 2x contract and nothing else.
\<close>

definition policy_2x_only :: policy where
  "policy_2x_only = [{sig_ADX} \<mapsto> only_position pos_2x]"

section \<open>Properties of the signal normalizer\<close>

lemma dropWhile_fix: "xs = [] \<or> \<not> P (hd xs) \<Longrightarrow> dropWhile P xs = xs"
  by (cases xs) auto

lemma prefix_hd: "prefix xs ys \<Longrightarrow> xs \<noteq> [] \<Longrightarrow> hd xs = hd ys"
  by (auto simp: prefix_def)

lemma rev_dropWhile_rev_prefix: "prefix (rev (dropWhile P (rev xs))) xs"
proof -
  have "suffix (dropWhile P (rev xs)) (rev xs)"
    by (rule suffix_dropWhile)
  then show ?thesis
    by (simp add: suffix_to_prefix)
qed

lemma py_strip_head: "dropWhile py_isspace (py_strip s) = py_strip s"
proof (rule dropWhile_fix, cases "py_strip s = []")
  case True
  then show "py_strip s = [] \<or> \<not> py_isspace (hd (py_strip s))" by simp
next
  case False
  have p: "prefix (py_strip s) (dropWhile py_isspace s)"
    unfolding py_strip_def by (rule rev_dropWhile_rev_prefix)
  from p False have h: "hd (py_strip s) = hd (dropWhile py_isspace s)"
    by (rule prefix_hd)
  have "dropWhile py_isspace s \<noteq> []"
  proof
    assume "dropWhile py_isspace s = []"
    with p have "prefix (py_strip s) []" by (simp only:)
    then have "py_strip s = []" by (simp only: prefix_Nil)
    with False show False by (simp only:)
  qed
  then have "\<not> py_isspace (hd (dropWhile py_isspace s))"
    by (rule hd_dropWhile)
  with h show "py_strip s = [] \<or> \<not> py_isspace (hd (py_strip s))" by simp
qed

lemma py_strip_idem: "py_strip (py_strip s) = py_strip s"
proof -
  have "py_strip (py_strip s) = rev (dropWhile py_isspace (rev (py_strip s)))"
    by (simp add: py_strip_def py_strip_head[unfolded py_strip_def])
  also have "rev (py_strip s) = dropWhile py_isspace (rev (dropWhile py_isspace s))"
    by (simp add: py_strip_def)
  also have "rev (dropWhile py_isspace (dropWhile py_isspace (rev (dropWhile py_isspace s)))) = py_strip s"
    by (simp add: py_strip_def)
  finally show ?thesis .
qed

lemma py_strip_sublist: "sublist (py_strip s) s"
proof -
  have "suffix (dropWhile py_isspace s) s"
    by (rule suffix_dropWhile)
  then have "sublist (dropWhile py_isspace s) s"
    by (rule suffix_imp_sublist)
  moreover have "sublist (py_strip s) (dropWhile py_isspace s)"
    unfolding py_strip_def by (rule prefix_imp_sublist[OF rev_dropWhile_rev_prefix])
  ultimately show ?thesis
    by (rule sublist_order.order_trans[rotated])
qed

lemmas sig_defs = sig_tempeture_index_def sig_120_ma_def sig_ADX_def

lemma sig_distinct:
  "sig_tempeture_index \<noteq> sig_120_ma" "sig_tempeture_index \<noteq> sig_ADX" "sig_120_ma \<noteq> sig_ADX"
  "sig_120_ma \<noteq> sig_tempeture_index" "sig_ADX \<noteq> sig_tempeture_index" "sig_ADX \<noteq> sig_120_ma"
  by (simp_all add: sig_defs)

lemma sig_less:
  "sig_120_ma < sig_ADX" "sig_ADX < sig_tempeture_index" "sig_120_ma < sig_tempeture_index"
  by (simp_all add: sig_defs)

lemma sig_le:
  "sig_120_ma \<le> sig_ADX" "sig_ADX \<le> sig_tempeture_index"
  "sig_120_ma \<le> sig_tempeture_index"
  "\<not> sig_ADX \<le> sig_120_ma" "\<not> sig_tempeture_index \<le> sig_ADX"
  "\<not> sig_tempeture_index \<le> sig_120_ma"
  using sig_less by (simp_all add: less_imp_le not_le)

lemma sig_not_sublist:
  "\<not> sublist sig_tempeture_index sig_120_ma"
  "\<not> sublist sig_tempeture_index sig_ADX"
  "\<not> sublist sig_120_ma sig_ADX"
  by (simp_all add: sig_defs sublist_code)

lemma normalize_signal_canonical:
  "normalize_signal sig_tempeture_index = sig_tempeture_index"
  "normalize_signal sig_120_ma = sig_120_ma"
  "normalize_signal sig_ADX = sig_ADX"
  by (simp_all add: normalize_signal_def sig_not_sublist)

lemma normalize_signal_idem: "normalize_signal (normalize_signal s) = normalize_signal s"
proof -
  consider (t) "sublist sig_tempeture_index s"
    | (m) "\<not> sublist sig_tempeture_index s" "sublist sig_120_ma s"
    | (a) "\<not> sublist sig_tempeture_index s" "\<not> sublist sig_120_ma s" "sublist sig_ADX s"
    | (n) "\<not> sublist sig_tempeture_index s" "\<not> sublist sig_120_ma s" "\<not> sublist sig_ADX s"
    by blast
  then show ?thesis
  proof cases
    case t
    then show ?thesis by (simp add: normalize_signal_def)
  next
    case m
    then show ?thesis by (simp add: normalize_signal_def sig_not_sublist)
  next
    case a
    then show ?thesis by (simp add: normalize_signal_def sig_not_sublist)
  next
    case n
    have sub: "\<And>c. sublist c (py_strip s) \<Longrightarrow> sublist c s"
      using py_strip_sublist sublist_order.order_trans by blast
    from n sub have "\<not> sublist sig_tempeture_index (py_strip s)"
      "\<not> sublist sig_120_ma (py_strip s)" "\<not> sublist sig_ADX (py_strip s)"
      by blast+
    with n show ?thesis by (simp add: normalize_signal_def py_strip_idem)
  qed
qed

lemma normalize_signal_contained:
  assumes "c \<in> SIGNALS" "sublist c s"
  shows "normalize_signal s \<in> SIGNALS \<and> sublist (normalize_signal s) s"
  using assms by (auto simp: SIGNALS_def normalize_signal_def)

text \<open>
  Claim C7, as amended. \<open>normalize_signal\<close> returns the first of \<open>tempeture_index\<close>,
  \<open>120_ma\<close>, \<open>ADX\<close> (in this order) that is a substring of the label, and the
  stripped label when none is. It is idempotent, it returns each of the three
  identifiers unchanged, and on a label that contains one of them it returns one of the
  three that the label contains: the one of highest priority, which need not be the one
  asked about.
\<close>

theorem normalize_signal_priority:
  "(sublist sig_tempeture_index s \<longrightarrow> normalize_signal s = sig_tempeture_index) \<and>
   (\<not> sublist sig_tempeture_index s \<and> sublist sig_120_ma s \<longrightarrow>
      normalize_signal s = sig_120_ma) \<and>
   (\<not> sublist sig_tempeture_index s \<and> \<not> sublist sig_120_ma s \<and> sublist sig_ADX s \<longrightarrow>
      normalize_signal s = sig_ADX) \<and>
   (\<not> sublist sig_tempeture_index s \<and> \<not> sublist sig_120_ma s \<and> \<not> sublist sig_ADX s \<longrightarrow>
      normalize_signal s = py_strip s) \<and>
   normalize_signal (normalize_signal s) = normalize_signal s \<and>
   (\<forall>c\<in>SIGNALS. normalize_signal c = c) \<and>
   (\<forall>c\<in>SIGNALS. sublist c s \<longrightarrow>
      normalize_signal s \<in> SIGNALS \<and> sublist (normalize_signal s) s)"
proof -
  have "\<forall>c\<in>SIGNALS. normalize_signal c = c"
    by (simp add: SIGNALS_def normalize_signal_canonical)
  moreover have "\<forall>c\<in>SIGNALS. sublist c s \<longrightarrow>
      normalize_signal s \<in> SIGNALS \<and> sublist (normalize_signal s) s"
    using normalize_signal_contained by blast
  ultimately show ?thesis
    by (simp add: normalize_signal_idem) (simp add: normalize_signal_def)
qed

text \<open>
  The theorem at the labels \<open>" ADX!"\<close> and \<open>" x "\<close>: the first contains \<open>ADX\<close> only,
  the second contains no identifier and is stripped.
\<close>

theorem normalize_signal_priority_witness:
  "\<not> sublist sig_tempeture_index ([32] @ sig_ADX @ [33]) \<and>
   \<not> sublist sig_120_ma ([32] @ sig_ADX @ [33]) \<and>
   sublist sig_ADX ([32] @ sig_ADX @ [33]) \<and>
   sig_ADX \<in> SIGNALS \<and>
   normalize_signal ([32] @ sig_ADX @ [33]) = sig_ADX \<and>
   normalize_signal sig_ADX = sig_ADX \<and>
   \<not> sublist sig_ADX [32, 120, 32] \<and>
   normalize_signal [32, 120, 32] = [120]"
proof -
  have h: "\<not> sublist sig_tempeture_index ([32] @ sig_ADX @ [33])"
    "\<not> sublist sig_120_ma ([32] @ sig_ADX @ [33])"
    "sublist sig_ADX ([32] @ sig_ADX @ [33])"
    by (simp_all add: sig_defs sublist_code)
  have m: "sig_ADX \<in> SIGNALS"
    by (simp add: SIGNALS_def)
  have n: "\<not> sublist sig_tempeture_index [32, 120, 32]"
    "\<not> sublist sig_120_ma [32, 120, 32]" "\<not> sublist sig_ADX [32, 120, 32]"
    by (simp_all add: sig_defs sublist_code)
  have s: "py_strip [32, 120, 32] = [120]"
    by (simp add: py_strip_def py_isspace_def)
  from h m n s normalize_signal_priority [of "[32] @ sig_ADX @ [33]"]
    normalize_signal_priority [of "[32, 120, 32]"]
  show ?thesis by metis
qed

text \<open>
  Claim C7 as stated fails in its last part: the label \<open>"120_maADX"\<close> contains
  \<open>ADX\<close>, and its normal form is \<open>120_ma\<close>.
\<close>

theorem normalize_signal_contains_counterexample:
  "sig_ADX \<in> SIGNALS \<and> sublist sig_ADX (sig_120_ma @ sig_ADX) \<and>
   normalize_signal (sig_120_ma @ sig_ADX) \<noteq> sig_ADX"
  by (simp add: SIGNALS_def normalize_signal_def sig_defs sublist_code)

section \<open>Properties of the engine\<close>

lemmas pos_defs = pos_flat_def pos_spot_def pos_1x_def pos_2x_def

lemma pos_distinct [simp]:
  "pos_flat \<noteq> pos_spot" "pos_flat \<noteq> pos_1x" "pos_flat \<noteq> pos_2x"
  "pos_spot \<noteq> pos_flat" "pos_spot \<noteq> pos_1x" "pos_spot \<noteq> pos_2x"
  "pos_1x \<noteq> pos_flat" "pos_1x \<noteq> pos_spot" "pos_1x \<noteq> pos_2x"
  "pos_2x \<noteq> pos_flat" "pos_2x \<noteq> pos_spot" "pos_2x \<noteq> pos_1x"
  by (simp_all add: pos_defs)

lemma act_distinct [simp]: "act_enter \<noteq> act_exit" "act_exit \<noteq> act_enter"
  by (simp_all add: act_enter_def act_exit_def)

lemma settle_1x:
  "position s = pos_1x \<Longrightarrow> last_price s = Some l \<Longrightarrow> l \<noteq> 0 \<Longrightarrow>
   settle s p = Inr (s\<lparr>btc := btc s * (1 + 1 * (p - l) / l)\<rparr>)"
  by (simp add: settle_def py_div_def algebra_simps)

lemma settle_2x:
  "position s = pos_2x \<Longrightarrow> last_price s = Some l \<Longrightarrow> l \<noteq> 0 \<Longrightarrow>
   settle s p = Inr (s\<lparr>btc := btc s * (1 + 2 * (p - l) / l)\<rparr>)"
  by (simp add: settle_def py_div_def algebra_simps)

lemma step_after_settle:
  assumes st: "settle s (price ev) = Inr s1" and pz: "price ev \<noteq> 0"
    and lev: "position s \<in> {pos_1x, pos_2x}"
    and ok: "step pol s ev = Inr (s', r)"
  shows "if position s' = pos_flat then usd s' = btc s1 * price ev \<and> btc s' = 0
         else btc s' = btc s1"
proof -
  have p1: "position s1 = position s"
    using st by (auto simp: settle_def py_div_def split: if_splits sum.splits)
  define s2 where "s2 = update_signals (update_last_price s1 (price ev)) ev"
  have s2: "position s2 = position s" "btc s2 = btc s1" "usd s2 = usd s1"
    using p1 by (simp_all add: s2_def update_signals_def update_last_price_def)
  obtain t where t: "resolve_target pol s2 = Inr t" "t \<in> POSITIONS"
    using ok st by (auto simp: step_def s2_def[symmetric] resolve_target_def Let_def
        split: sum.splits if_splits option.splits)
  show ?thesis
  proof (cases "t = position s2")
    case True
    then have "s' = s2"
      using ok st t by (simp add: step_def s2_def[symmetric])
    then show ?thesis using s2 lev by auto
  next
    case False
    then obtain s3 where s3: "switch_position s2 (price ev) t = Inr s3" "s' = s3"
      using ok st t by (auto simp: step_def s2_def[symmetric] split: sum.splits)
    from s3(1) s2 lev pz t(2) False show ?thesis
      unfolding s3(2)
      by (auto simp: switch_position_def reopen_def liquidate_def py_div_def POSITIONS_def
          split: sum.splits if_splits)
  qed
qed

lemma scenario_B_step1:
  "step scenario_B_policy (init_state 1000)
     \<lparr>price = 100, action_type = act_enter, sig_raw = sig_ADX\<rparr> =
   Inr (\<lparr>usd = 0, btc = 10, position = pos_1x, active_signals = {sig_ADX},
         last_price = Some 100\<rparr>,
        \<lparr>row_position = pos_1x, row_btc = 10, row_total = 1000, row_signals = sig_ADX,
         row_remark = remark_prefix @ pos_1x\<rparr>)"
  by (simp add: step_def settle_def init_state_def update_last_price_def update_signals_def
      resolve_target_def scenario_B_policy_def only_position_def cfg_truthy_def POSITIONS_def
      switch_position_def liquidate_def reopen_def py_div_def make_row_def total_assets_def
      normalize_signal_canonical)

lemma scenario_B_step2:
  "a \<noteq> act_enter \<Longrightarrow> a \<noteq> act_exit \<Longrightarrow>
   step scenario_B_policy
     \<lparr>usd = 0, btc = 10, position = pos_1x, active_signals = {sig_ADX},
         last_price = Some 100\<rparr>
     \<lparr>price = 110, action_type = a, sig_raw = x\<rparr> =
   Inr (\<lparr>usd = 0, btc = 11, position = pos_1x, active_signals = {sig_ADX},
         last_price = Some 110\<rparr>,
        \<lparr>row_position = pos_1x, row_btc = 11, row_total = 1210, row_signals = sig_ADX,
         row_remark = []\<rparr>)"
  by (simp add: step_def settle_def update_last_price_def update_signals_def
      resolve_target_def scenario_B_policy_def only_position_def cfg_truthy_def POSITIONS_def
      py_div_def make_row_def total_assets_def)

lemma scenario_B:
  "a \<noteq> act_enter \<Longrightarrow> a \<noteq> act_exit \<Longrightarrow>
   run_backtest scenario_B_policy
     [\<lparr>price = 100, action_type = act_enter, sig_raw = sig_ADX\<rparr>,
      \<lparr>price = 110, action_type = a, sig_raw = x\<rparr>] 1000 =
   Inr [\<lparr>row_position = pos_1x, row_btc = 10, row_total = 1000, row_signals = sig_ADX,
         row_remark = remark_prefix @ pos_1x\<rparr>,
        \<lparr>row_position = pos_1x, row_btc = 11, row_total = 1210, row_signals = sig_ADX,
         row_remark = []\<rparr>]"
  by (simp add: run_backtest_def scenario_B_step1 scenario_B_step2)

text \<open>
  Claim C1. When the position held at the start of an event is the 1x (resp. 2x)
  contract and the reference price \<open>l\<close> is set (and is not zero, so that the quotient
  exists and no \<open>ZeroDivisionError\<close> is raised), the settlement multiplies the held
  quantity by \<open>1 + k * (p - l) / l\<close> with \<open>k = 1\<close> (resp. \<open>k = 2\<close>). The multiplier
  is that of the position held before the event: whatever the event then does to the
  signals and the position, the quantity after the event is the settled one (or, after
  a switch to the flat position, its value in USD). With the policy that maps
  \<open>{ADX}\<close> to the 1x contract, the events "enter ADX at 100" and "no action at 110"
  and 1000 USD, the rows show 10 and 1000, then 11 and 1210.
\<close>

theorem settle_multiplies_quantity:
  assumes "last_price s = Some l" and "l \<noteq> 0"
  shows "(position s = pos_1x \<longrightarrow>
            settle s p = Inr (s\<lparr>btc := btc s * (1 + 1 * (p - l) / l)\<rparr>)) \<and>
         (position s = pos_2x \<longrightarrow>
            settle s p = Inr (s\<lparr>btc := btc s * (1 + 2 * (p - l) / l)\<rparr>)) \<and>
         (position s = pos_1x \<and> price ev \<noteq> 0 \<and> step pol s ev = Inr (s', r) \<longrightarrow>
            (if position s' = pos_flat
             then usd s' = btc s * (1 + 1 * (price ev - l) / l) * price ev \<and> btc s' = 0
             else btc s' = btc s * (1 + 1 * (price ev - l) / l))) \<and>
         (position s = pos_2x \<and> price ev \<noteq> 0 \<and> step pol s ev = Inr (s', r) \<longrightarrow>
            (if position s' = pos_flat
             then usd s' = btc s * (1 + 2 * (price ev - l) / l) * price ev \<and> btc s' = 0
             else btc s' = btc s * (1 + 2 * (price ev - l) / l))) \<and>
         (a \<noteq> act_enter \<and> a \<noteq> act_exit \<longrightarrow>
            run_backtest scenario_B_policy
              [\<lparr>price = 100, action_type = act_enter, sig_raw = sig_ADX\<rparr>,
               \<lparr>price = 110, action_type = a, sig_raw = x\<rparr>] 1000 =
            Inr [\<lparr>row_position = pos_1x, row_btc = 10, row_total = 1000,
                  row_signals = sig_ADX, row_remark = remark_prefix @ pos_1x\<rparr>,
                 \<lparr>row_position = pos_1x, row_btc = 11, row_total = 1210,
                  row_signals = sig_ADX, row_remark = []\<rparr>])"
proof (intro conjI impI)
  assume "position s = pos_1x"
  then show "settle s p = Inr (s\<lparr>btc := btc s * (1 + 1 * (p - l) / l)\<rparr>)"
    using assms by (rule settle_1x)
next
  assume "position s = pos_2x"
  then show "settle s p = Inr (s\<lparr>btc := btc s * (1 + 2 * (p - l) / l)\<rparr>)"
    using assms by (rule settle_2x)
next
  assume h: "position s = pos_1x \<and> price ev \<noteq> 0 \<and> step pol s ev = Inr (s', r)"
  then have "settle s (price ev) = Inr (s\<lparr>btc := btc s * (1 + 1 * (price ev - l) / l)\<rparr>)"
    using assms by (simp add: settle_1x)
  from step_after_settle [OF this, of pol s' r] h
  show "if position s' = pos_flat
        then usd s' = btc s * (1 + 1 * (price ev - l) / l) * price ev \<and> btc s' = 0
        else btc s' = btc s * (1 + 1 * (price ev - l) / l)"
    by simp
next
  assume h: "position s = pos_2x \<and> price ev \<noteq> 0 \<and> step pol s ev = Inr (s', r)"
  then have "settle s (price ev) = Inr (s\<lparr>btc := btc s * (1 + 2 * (price ev - l) / l)\<rparr>)"
    using assms by (simp add: settle_2x)
  from step_after_settle [OF this, of pol s' r] h
  show "if position s' = pos_flat
        then usd s' = btc s * (1 + 2 * (price ev - l) / l) * price ev \<and> btc s' = 0
        else btc s' = btc s * (1 + 2 * (price ev - l) / l)"
    by simp
next
  assume "a \<noteq> act_enter \<and> a \<noteq> act_exit"
  then show "run_backtest scenario_B_policy
              [\<lparr>price = 100, action_type = act_enter, sig_raw = sig_ADX\<rparr>,
               \<lparr>price = 110, action_type = a, sig_raw = x\<rparr>] 1000 =
            Inr [\<lparr>row_position = pos_1x, row_btc = 10, row_total = 1000,
                  row_signals = sig_ADX, row_remark = remark_prefix @ pos_1x\<rparr>,
                 \<lparr>row_position = pos_1x, row_btc = 11, row_total = 1210,
                  row_signals = sig_ADX, row_remark = []\<rparr>]"
    by (simp add: scenario_B)
qed

text \<open>
  The theorem at the state reached after "enter ADX at 100" with 1000 USD, for the 1x
  and for the 2x contract, marked at 110: the quantity 10 becomes 11, resp. 12; and the
  two rows of the scenario, the second event having an empty action.
\<close>

theorem settle_multiplies_quantity_witness:
  "settle \<lparr>usd = 0, btc = 10, position = pos_1x, active_signals = {sig_ADX},
           last_price = Some 100\<rparr> 110 =
     Inr \<lparr>usd = 0, btc = 11, position = pos_1x, active_signals = {sig_ADX},
           last_price = Some 100\<rparr> \<and>
   settle \<lparr>usd = 0, btc = 10, position = pos_2x, active_signals = {sig_ADX},
           last_price = Some 100\<rparr> 110 =
     Inr \<lparr>usd = 0, btc = 12, position = pos_2x, active_signals = {sig_ADX},
           last_price = Some 100\<rparr> \<and>
   run_backtest scenario_B_policy
     [\<lparr>price = 100, action_type = act_enter, sig_raw = sig_ADX\<rparr>,
      \<lparr>price = 110, action_type = [], sig_raw = []\<rparr>] 1000 =
   Inr [\<lparr>row_position = pos_1x, row_btc = 10, row_total = 1000,
         row_signals = sig_ADX, row_remark = remark_prefix @ pos_1x\<rparr>,
        \<lparr>row_position = pos_1x, row_btc = 11, row_total = 1210,
         row_signals = sig_ADX, row_remark = []\<rparr>]"
proof -
  have l: "(100::real) \<noteq> 0" by simp
  have a: "[] \<noteq> act_enter \<and> [] \<noteq> act_exit"
    by (simp add: act_enter_def act_exit_def)
  have "last_price \<lparr>usd = 0, btc = 10, position = pos_1x, active_signals = {sig_ADX},
           last_price = Some 100\<rparr> = Some 100" by simp
  from settle_multiplies_quantity [OF this l, of 110 _ _ _ _ "[]" "[]"] a
  have one: "settle \<lparr>usd = 0, btc = 10, position = pos_1x, active_signals = {sig_ADX},
           last_price = Some 100\<rparr> 110 =
     Inr \<lparr>usd = 0, btc = 11, position = pos_1x, active_signals = {sig_ADX},
           last_price = Some 100\<rparr>"
    and run: "run_backtest scenario_B_policy
     [\<lparr>price = 100, action_type = act_enter, sig_raw = sig_ADX\<rparr>,
      \<lparr>price = 110, action_type = [], sig_raw = []\<rparr>] 1000 =
   Inr [\<lparr>row_position = pos_1x, row_btc = 10, row_total = 1000,
         row_signals = sig_ADX, row_remark = remark_prefix @ pos_1x\<rparr>,
        \<lparr>row_position = pos_1x, row_btc = 11, row_total = 1210,
         row_signals = sig_ADX, row_remark = []\<rparr>]"
    by simp_all
  have "last_price \<lparr>usd = 0, btc = 10, position = pos_2x, active_signals = {sig_ADX},
           last_price = Some 100\<rparr> = Some 100" by simp
  from settle_multiplies_quantity [OF this l, of 110]
  have two: "settle \<lparr>usd = 0, btc = 10, position = pos_2x, active_signals = {sig_ADX},
           last_price = Some 100\<rparr> 110 =
     Inr \<lparr>usd = 0, btc = 12, position = pos_2x, active_signals = {sig_ADX},
           last_price = Some 100\<rparr>"
    by simp
  from one two run show ?thesis by simp
qed

lemma settle_fields:
  assumes "settle s p = Inr s1"
  shows "position s1 = position s" "usd s1 = usd s" "active_signals s1 = active_signals s"
    "last_price s1 = last_price s"
  using assms by (auto simp: settle_def py_div_def split: if_splits)

lemma pre_switch_fields:
  "position (update_signals (update_last_price s1 p) ev) = position s1"
  "usd (update_signals (update_last_price s1 p) ev) = usd s1"
  "btc (update_signals (update_last_price s1 p) ev) = btc s1"
  "last_price (update_signals (update_last_price s1 p) ev) =
     (if position s1 \<in> {pos_1x, pos_2x} then Some p else None)"
  "active_signals (update_signals (update_last_price s1 p) ev) =
     active_signals (update_signals s1 ev)"
  by (simp_all add: update_signals_def update_last_price_def)

lemma resolve_target_valid: "resolve_target pol s = Inr t \<Longrightarrow> t \<in> POSITIONS"
  by (auto simp: resolve_target_def split: sum.splits if_splits option.splits)

lemma step_Inr:
  assumes "step pol s ev = Inr (s', r)"
  shows "\<exists>s1 t. settle s (price ev) = Inr s1 \<and>
           resolve_target pol (update_signals (update_last_price s1 (price ev)) ev) = Inr t \<and>
           t \<in> POSITIONS \<and>
           (if t \<noteq> position s1
            then switch_position (update_signals (update_last_price s1 (price ev)) ev)
                   (price ev) t = Inr s' \<and>
                 r = make_row s' (price ev) (remark_prefix @ t)
            else s' = update_signals (update_last_price s1 (price ev)) ev \<and>
                 r = make_row s' (price ev) [])"
proof -
  obtain s1 where s1: "settle s (price ev) = Inr s1"
    using assms by (auto simp: step_def split: sum.splits)
  let ?s2 = "update_signals (update_last_price s1 (price ev)) ev"
  obtain t where t: "resolve_target pol ?s2 = Inr t"
    using assms s1 by (auto simp: step_def Let_def split: sum.splits)
  have v: "t \<in> POSITIONS" using t by (rule resolve_target_valid)
  show ?thesis
  proof (cases "t = position s1")
    case True
    then show ?thesis
      using assms s1 t v by (auto simp: step_def Let_def pre_switch_fields)
  next
    case False
    then show ?thesis
      using assms s1 t v by (auto simp: step_def Let_def pre_switch_fields split: sum.splits)
  qed
qed

lemma switch_position_fields:
  assumes "switch_position s p t = Inr s'"
  shows "position s' = t" "active_signals s' = active_signals s"
  using assms
  by (auto simp: switch_position_def reopen_def liquidate_def py_div_def
      split: sum.splits if_splits)


lemma settle_sound:
  assumes "sound_account s" "0 < p"
    and "\<not> (position s = pos_2x \<and>
         (case last_price s of None \<Rightarrow> False | Some l \<Rightarrow> 2 * p \<le> l))"
  shows "\<exists>s1. settle s p = Inr s1 \<and> position s1 = position s \<and> usd s1 = usd s \<and>
           (position s = pos_flat \<longrightarrow> btc s1 = 0) \<and>
           (position s \<noteq> pos_flat \<longrightarrow> 0 < btc s1)"
proof (cases "last_price s")
  case None
  then show ?thesis using assms(1) by (simp add: settle_def sound_account_def)
next
  case (Some l)
  then have l: "0 < l" using assms(1) by (simp add: sound_account_def)
  consider (one) "position s = pos_1x" | (two) "position s = pos_2x"
    | (other) "position s \<noteq> pos_1x" "position s \<noteq> pos_2x" by blast
  then show ?thesis
  proof cases
    case one
    then have b: "0 < btc s" using assms(1) by (simp add: sound_account_def)
    have "btc s + (p - l) / l * btc s = btc s * (p / l)"
      using l by (simp add: field_simps)
    moreover have "0 < btc s * (p / l)" using b l assms(2) by simp
    ultimately show ?thesis using one Some l
      by (simp add: settle_def py_div_def)
  next
    case two
    then have b: "0 < btc s" using assms(1) by (simp add: sound_account_def)
    have w: "l < 2 * p" using assms(3) two Some by simp
    have "btc s + 2 * (p - l) / l * btc s = btc s * ((2 * p - l) / l)"
      using l by (simp add: field_simps)
    moreover have "0 < btc s * ((2 * p - l) / l)" using b l w by simp
    ultimately show ?thesis using two Some l
      by (simp add: settle_def py_div_def)
  next
    case other
    then show ?thesis using assms(1) by (auto simp: settle_def sound_account_def)
  qed
qed

lemma switch_sound:
  assumes pos: "position s \<in> POSITIONS" "t \<in> POSITIONS" "t \<noteq> position s" and p: "0 < p"
    and f: "position s = pos_flat \<longrightarrow> 0 < usd s \<and> btc s = 0"
    and h: "position s \<noteq> pos_flat \<longrightarrow> usd s = 0 \<and> 0 < btc s"
  shows "\<exists>s'. switch_position s p t = Inr s' \<and> position s' = t \<and>
           (t = pos_flat \<longrightarrow> 0 < usd s' \<and> btc s' = 0) \<and>
           (t \<noteq> pos_flat \<longrightarrow> usd s' = 0 \<and> 0 < btc s') \<and>
           last_price s' = (if t \<in> {pos_1x, pos_2x} then Some p else last_price s) \<and>
           total_assets s' p = total_assets s p"
  using assms
  by (auto simp: POSITIONS_def switch_position_def reopen_def liquidate_def py_div_def
      total_assets_def)


lemma step_sound:
  assumes s: "sound_account s" and p: "0 < price ev"
    and w: "\<not> (position s = pos_2x \<and>
         (case last_price s of None \<Rightarrow> False | Some l \<Rightarrow> 2 * price ev \<le> l))"
    and st: "step pol s ev = Inr (s', r)"
  shows "sound_account s'"
proof -
  from settle_sound [OF s p w] obtain s1 where
    s1: "settle s (price ev) = Inr s1" "position s1 = position s" "usd s1 = usd s"
      "position s = pos_flat \<longrightarrow> btc s1 = 0" "position s \<noteq> pos_flat \<longrightarrow> 0 < btc s1"
    by blast
  let ?s2 = "update_signals (update_last_price s1 (price ev)) ev"
  from step_Inr [OF st] s1(1) obtain t where
    t: "t \<in> POSITIONS" and
    c: "if t \<noteq> position s1
        then switch_position ?s2 (price ev) t = Inr s' \<and>
             r = make_row s' (price ev) (remark_prefix @ t)
        else s' = ?s2 \<and> r = make_row s' (price ev) []"
    by auto
  have v: "position s \<in> POSITIONS"
    and f: "position s = pos_flat \<longrightarrow> 0 < usd s"
    and h: "position s \<noteq> pos_flat \<longrightarrow> usd s = 0"
    using s by (simp_all add: sound_account_def)
  show ?thesis
  proof (cases "t = position s1")
    case True
    with c have "s' = ?s2" by simp
    then show ?thesis
      using s1 v f h p by (auto simp: sound_account_def pre_switch_fields)
  next
    case False
    with c have sw: "switch_position ?s2 (price ev) t = Inr s'" by simp
    have "\<exists>s''. switch_position ?s2 (price ev) t = Inr s'' \<and> position s'' = t \<and>
           (t = pos_flat \<longrightarrow> 0 < usd s'' \<and> btc s'' = 0) \<and>
           (t \<noteq> pos_flat \<longrightarrow> usd s'' = 0 \<and> 0 < btc s'') \<and>
           last_price s'' = (if t \<in> {pos_1x, pos_2x} then Some (price ev) else last_price ?s2) \<and>
           total_assets s'' (price ev) = total_assets ?s2 (price ev)"
      using v t False p s1 f h by (intro switch_sound) (simp_all add: pre_switch_fields)
    with sw have "position s' = t"
      "t = pos_flat \<longrightarrow> 0 < usd s' \<and> btc s' = 0"
      "t \<noteq> pos_flat \<longrightarrow> usd s' = 0 \<and> 0 < btc s'"
      "last_price s' = (if t \<in> {pos_1x, pos_2x} then Some (price ev) else last_price ?s2)"
      by auto
    then show ?thesis
      using t p by (auto simp: sound_account_def pre_switch_fields)
  qed
qed

lemma run_loop_sound:
  assumes "sound_account s" "\<forall>ev\<in>set evs. 0 < price ev" "no_2x_wipeout pol s evs"
    "run_loop pol s evs = Inr (s', rows)"
  shows "sound_account s'"
  using assms
proof (induction evs arbitrary: s rows)
  case Nil
  then show ?case by simp
next
  case (Cons ev evs)
  from Cons.prems(4) obtain s1 r rs where
    st: "step pol s ev = Inr (s1, r)" and rl: "run_loop pol s1 evs = Inr (s', rs)"
    by (auto split: sum.splits)
  have "sound_account s1"
    using Cons.prems(1,2,3) st by (intro step_sound [of s ev pol s1 r]) simp_all
  moreover have "no_2x_wipeout pol s1 evs"
    using Cons.prems(3) st by simp
  ultimately show ?case
    using Cons.IH [of s1 rs] Cons.prems(2) rl by simp
qed

lemma init_state_sound: "0 < c \<Longrightarrow> sound_account (init_state c)"
  by (simp add: sound_account_def init_state_def POSITIONS_def)

lemma no_2x_wipeout_append:
  "no_2x_wipeout pol s (xs @ ys) \<Longrightarrow> no_2x_wipeout pol s xs"
  by (induction xs arbitrary: s) (auto split: sum.splits)

text \<open>
  Claim C5, as amended, in exact arithmetic (the quantities and prices are real
  numbers here, where the program has floats that round). With a positive initial
  capital and positive prices, and provided that no 2x contract is ever marked at a
  price at or below half of its reference price, the account after each event (that is, after every prefix of the
  events that the run gets through) has a non-negative quantity, a non-negative USD
  balance, and exactly one of the two is not zero.
\<close>

theorem account_invariant:
  assumes "0 < initial_usd" and "\<forall>ev\<in>set events. 0 < price ev"
    and "no_2x_wipeout pol (init_state initial_usd) events"
    and "run_loop pol (init_state initial_usd) (take n events) = Inr (s, rows)"
  shows "0 \<le> btc s \<and> 0 \<le> usd s \<and> (usd s \<noteq> 0) \<noteq> (btc s \<noteq> 0)"
proof -
  have "\<forall>ev\<in>set (take n events). 0 < price ev"
    using assms(2) by (meson in_set_takeD)
  moreover have "no_2x_wipeout pol (init_state initial_usd) (take n events)"
    using assms(3) no_2x_wipeout_append [of pol _ "take n events" "drop n events"] by simp
  ultimately have "sound_account s"
    using assms(1,4) init_state_sound run_loop_sound by blast
  then show ?thesis
    by (cases "position s = pos_flat") (auto simp: sound_account_def)
qed

lemma policy_2x_flat_run:
  "run_loop policy_2x_flat (init_state 1000)
     [\<lparr>price = 100, action_type = act_enter, sig_raw = sig_ADX\<rparr>,
      \<lparr>price = 40, action_type = [], sig_raw = []\<rparr>] =
   Inr (\<lparr>usd = 0, btc = - 2, position = pos_2x, active_signals = {sig_ADX},
         last_price = Some 40\<rparr>,
        [\<lparr>row_position = pos_2x, row_btc = 10, row_total = 1000, row_signals = sig_ADX,
          row_remark = remark_prefix @ pos_2x\<rparr>,
         \<lparr>row_position = pos_2x, row_btc = - 2, row_total = - 80, row_signals = sig_ADX,
          row_remark = []\<rparr>])"
  by (simp add: step_def settle_def init_state_def update_last_price_def update_signals_def
      resolve_target_def policy_2x_flat_def only_position_def cfg_truthy_def POSITIONS_def
      switch_position_def liquidate_def reopen_def py_div_def make_row_def total_assets_def
      normalize_signal_canonical act_enter_def act_exit_def)

lemmas engine_defs = step_def settle_def init_state_def update_last_price_def
  update_signals_def resolve_target_def only_position_def cfg_truthy_def POSITIONS_def
  switch_position_def liquidate_def reopen_def py_div_def make_row_def total_assets_def
  normalize_signal_canonical act_enter_def act_exit_def

text \<open>
  The theorem at the policy that maps \<open>{ADX}\<close> to the 2x contract, 1000 USD and the
  events "enter ADX at 100", "no action at 60": the 2x settlement at 60 leaves the
  quantity 2, and the account is well-formed.
\<close>

theorem account_invariant_witness:
  "(0::real) < 1000 \<and>
   0 < price \<lparr>price = 100, action_type = act_enter, sig_raw = sig_ADX\<rparr> \<and>
   0 < price \<lparr>price = 60, action_type = [], sig_raw = []\<rparr> \<and>
   no_2x_wipeout policy_2x_flat (init_state 1000)
     [\<lparr>price = 100, action_type = act_enter, sig_raw = sig_ADX\<rparr>,
      \<lparr>price = 60, action_type = [], sig_raw = []\<rparr>] \<and>
   run_loop policy_2x_flat (init_state 1000)
     (take 2 [\<lparr>price = 100, action_type = act_enter, sig_raw = sig_ADX\<rparr>,
              \<lparr>price = 60, action_type = [], sig_raw = []\<rparr>]) =
   Inr (\<lparr>usd = 0, btc = 2, position = pos_2x, active_signals = {sig_ADX},
         last_price = Some 60\<rparr>,
        [\<lparr>row_position = pos_2x, row_btc = 10, row_total = 1000, row_signals = sig_ADX,
          row_remark = remark_prefix @ pos_2x\<rparr>,
         \<lparr>row_position = pos_2x, row_btc = 2, row_total = 120, row_signals = sig_ADX,
          row_remark = []\<rparr>]) \<and>
   0 \<le> btc \<lparr>usd = 0, btc = 2, position = pos_2x, active_signals = {sig_ADX},
         last_price = Some 60\<rparr> \<and>
   0 \<le> usd \<lparr>usd = 0, btc = 2, position = pos_2x, active_signals = {sig_ADX},
         last_price = Some 60\<rparr> \<and>
   (usd \<lparr>usd = 0, btc = 2, position = pos_2x, active_signals = {sig_ADX},
         last_price = Some 60\<rparr> \<noteq> 0) \<noteq>
   (btc \<lparr>usd = 0, btc = 2, position = pos_2x, active_signals = {sig_ADX},
         last_price = Some 60\<rparr> \<noteq> 0)"
proof -
  let ?evs = "[\<lparr>price = 100, action_type = act_enter, sig_raw = sig_ADX\<rparr>,
               \<lparr>price = 60, action_type = [], sig_raw = []\<rparr>]"
  let ?s = "\<lparr>usd = 0, btc = 2, position = pos_2x, active_signals = {sig_ADX},
         last_price = Some (60::real)\<rparr>"
  have c: "(0::real) < 1000" by simp
  have p: "\<forall>ev\<in>set ?evs. 0 < price ev" by simp
  have w: "no_2x_wipeout policy_2x_flat (init_state 1000) ?evs"
    by (simp add: engine_defs policy_2x_flat_def)
  have r: "run_loop policy_2x_flat (init_state 1000) (take 2 ?evs) =
     Inr (?s,
        [\<lparr>row_position = pos_2x, row_btc = 10, row_total = 1000, row_signals = sig_ADX,
          row_remark = remark_prefix @ pos_2x\<rparr>,
         \<lparr>row_position = pos_2x, row_btc = 2, row_total = 120, row_signals = sig_ADX,
          row_remark = []\<rparr>])"
    by (simp add: engine_defs policy_2x_flat_def)
  have p': "0 < price \<lparr>price = 100, action_type = act_enter, sig_raw = sig_ADX\<rparr> \<and>
    0 < price \<lparr>price = 60, action_type = [], sig_raw = []\<rparr>"
    by simp
  from account_invariant [OF c p w r] c p' w r show ?thesis by blast
qed

text \<open>
  Claim C5 as stated fails: with the same policy and the second event at price 40 (less
  than half of the reference price 100) the 2x settlement makes the quantity negative,
  \<open>10 + 2 * (40 - 100) / 100 * 10 = - 2\<close>, although all prices and the capital are
  positive.
\<close>

theorem account_invariant_counterexample:
  "run_loop policy_2x_flat (init_state 1000)
     [\<lparr>price = 100, action_type = act_enter, sig_raw = sig_ADX\<rparr>,
      \<lparr>price = 40, action_type = [], sig_raw = []\<rparr>] =
   Inr (\<lparr>usd = 0, btc = - 2, position = pos_2x, active_signals = {sig_ADX},
         last_price = Some 40\<rparr>,
        [\<lparr>row_position = pos_2x, row_btc = 10, row_total = 1000, row_signals = sig_ADX,
          row_remark = remark_prefix @ pos_2x\<rparr>,
         \<lparr>row_position = pos_2x, row_btc = - 2, row_total = - 80, row_signals = sig_ADX,
          row_remark = []\<rparr>]) \<and>
   \<not> 0 \<le> btc \<lparr>usd = 0, btc = - 2, position = pos_2x, active_signals = {sig_ADX},
         last_price = Some 40\<rparr>"
  by (rule conjI, rule policy_2x_flat_run, simp)

lemma no_2x_wipeout_after:
  "no_2x_wipeout pol s (xs @ ys) \<Longrightarrow> run_loop pol s xs = Inr (s', rows) \<Longrightarrow>
   no_2x_wipeout pol s' ys"
  by (induction xs arbitrary: s rows) (auto split: sum.splits)

text \<open>
  Claim C2, as amended. In a run with a positive initial capital and positive prices in
  which no 2x contract is marked at a price at or below half of its reference price,
  at every event at which the target position differs from the current one the switch
  succeeds, and the total asset value read after it equals the one read before it.
\<close>

theorem switch_preserves_total:
  assumes "0 < initial_usd" and "\<forall>e\<in>set (evs @ [ev]). 0 < price e"
    and "no_2x_wipeout pol (init_state initial_usd) (evs @ [ev])"
    and "run_loop pol (init_state initial_usd) evs = Inr (s, rows)"
    and "settle s (price ev) = Inr s1"
    and "resolve_target pol (update_signals (update_last_price s1 (price ev)) ev) = Inr t"
    and "t \<noteq> position (update_signals (update_last_price s1 (price ev)) ev)"
  shows "\<exists>s3. switch_position (update_signals (update_last_price s1 (price ev)) ev)
                (price ev) t = Inr s3 \<and>
              total_assets s3 (price ev) =
              total_assets (update_signals (update_last_price s1 (price ev)) ev) (price ev)"
proof -
  let ?s2 = "update_signals (update_last_price s1 (price ev)) ev"
  have snd: "sound_account s"
    using assms(1,2,3,4) init_state_sound no_2x_wipeout_append run_loop_sound
    by (metis Un_iff set_append)
  have "no_2x_wipeout pol s [ev]"
    using assms(3,4) by (rule no_2x_wipeout_after)
  then have w: "\<not> (position s = pos_2x \<and>
         (case last_price s of None \<Rightarrow> False | Some l \<Rightarrow> 2 * price ev \<le> l))"
    by simp
  have p: "0 < price ev" using assms(2) by simp
  from settle_sound [OF snd p w] assms(5) have
    s1: "position s1 = position s" "usd s1 = usd s"
      "position s = pos_flat \<longrightarrow> btc s1 = 0" "position s \<noteq> pos_flat \<longrightarrow> 0 < btc s1"
    by auto
  have v: "position s \<in> POSITIONS"
    and f: "position s = pos_flat \<longrightarrow> 0 < usd s"
    and h: "position s \<noteq> pos_flat \<longrightarrow> usd s = 0"
    using snd by (simp_all add: sound_account_def)
  have t: "t \<in> POSITIONS" using assms(6) by (rule resolve_target_valid)
  have "\<exists>s''. switch_position ?s2 (price ev) t = Inr s'' \<and> position s'' = t \<and>
           (t = pos_flat \<longrightarrow> 0 < usd s'' \<and> btc s'' = 0) \<and>
           (t \<noteq> pos_flat \<longrightarrow> usd s'' = 0 \<and> 0 < btc s'') \<and>
           last_price s'' = (if t \<in> {pos_1x, pos_2x} then Some (price ev) else last_price ?s2) \<and>
           total_assets s'' (price ev) = total_assets ?s2 (price ev)"
    using v t assms(7) p s1 f h by (intro switch_sound) (simp_all add: pre_switch_fields)
  then show ?thesis by blast
qed

lemma step_last_price:
  assumes "step pol s ev = Inr (s', r)"
  shows "last_price s' =
           (if position s' \<in> {pos_1x, pos_2x} \<or> position s \<in> {pos_1x, pos_2x}
            then Some (price ev) else None)"
proof -
  from step_Inr [OF assms] obtain s1 t where
    s1: "settle s (price ev) = Inr s1" and
    t: "t \<in> POSITIONS" and
    c: "if t \<noteq> position s1
        then switch_position (update_signals (update_last_price s1 (price ev)) ev)
               (price ev) t = Inr s' \<and> r = make_row s' (price ev) (remark_prefix @ t)
        else s' = update_signals (update_last_price s1 (price ev)) ev \<and>
             r = make_row s' (price ev) []"
    by blast
  have ps: "position s1 = position s" using s1 by (rule settle_fields)
  show ?thesis
  proof (cases "t = position s1")
    case True
    with c ps show ?thesis by (simp add: pre_switch_fields)
  next
    case False
    with c have "switch_position (update_signals (update_last_price s1 (price ev)) ev)
               (price ev) t = Inr s'" by simp
    then show ?thesis
      using ps t
      by (auto simp: switch_position_def reopen_def liquidate_def py_div_def
          update_signals_def update_last_price_def POSITIONS_def
          split: sum.splits if_splits)
  qed
qed

text \<open>
  Claim C9, as amended. At the end of an event the reference price is set, to the price
  of the event, exactly when the position is a contract after the event or was one
  before it; so it is always set while a contract is held, and it is unset while the
  position is flat or spot except at the event that switched away from a contract,
  where it keeps the price of the event. The settlement never reads it while the
  position is flat or spot.
\<close>

theorem last_price_after_step:
  assumes "step pol s ev = Inr (s', r)"
  shows "last_price s' =
           (if position s' \<in> {pos_1x, pos_2x} \<or> position s \<in> {pos_1x, pos_2x}
            then Some (price ev) else None) \<and>
         (position s \<notin> {pos_1x, pos_2x} \<longrightarrow> settle s p = Inr s)"
  using step_last_price [OF assms] by (simp add: settle_def)

text \<open>
  The theorem at the policy "no signal is flat, ADX is the 2x contract", 1000 USD and
  the events "enter ADX at 100", "exit ADX at 60": before the switch to flat the
  account holds 2 units worth 120, after it 120 USD.
\<close>

theorem switch_preserves_total_witness:
  "(0::real) < 1000 \<and>
   0 < price \<lparr>price = 100, action_type = act_enter, sig_raw = sig_ADX\<rparr> \<and>
   0 < price \<lparr>price = 60, action_type = act_exit, sig_raw = sig_ADX\<rparr> \<and>
   no_2x_wipeout policy_2x_flat (init_state 1000)
     ([\<lparr>price = 100, action_type = act_enter, sig_raw = sig_ADX\<rparr>] @
      [\<lparr>price = 60, action_type = act_exit, sig_raw = sig_ADX\<rparr>]) \<and>
   total_assets \<lparr>usd = 0, btc = 2, position = pos_2x, active_signals = {},
                  last_price = Some 60\<rparr> 60 = 120 \<and>
   (\<exists>s3. switch_position \<lparr>usd = 0, btc = 2, position = pos_2x, active_signals = {},
                  last_price = Some 60\<rparr> 60 pos_flat = Inr s3 \<and>
         total_assets s3 60 = 120)"
proof -
  let ?e1 = "\<lparr>price = 100, action_type = act_enter, sig_raw = sig_ADX\<rparr>"
  let ?e2 = "\<lparr>price = 60, action_type = act_exit, sig_raw = sig_ADX\<rparr>"
  let ?s = "\<lparr>usd = 0, btc = 10, position = pos_2x, active_signals = {sig_ADX},
             last_price = Some (100::real)\<rparr>"
  let ?s1 = "\<lparr>usd = 0, btc = 2, position = pos_2x, active_signals = {sig_ADX},
             last_price = Some (100::real)\<rparr>"
  let ?s2 = "\<lparr>usd = 0, btc = 2, position = pos_2x, active_signals = {},
             last_price = Some (60::real)\<rparr>"
  have c: "(0::real) < 1000" by simp
  have p: "\<forall>e\<in>set ([?e1] @ [?e2]). 0 < price e" by simp
  have w: "no_2x_wipeout policy_2x_flat (init_state 1000) ([?e1] @ [?e2])"
    by (simp add: engine_defs policy_2x_flat_def)
  have r: "run_loop policy_2x_flat (init_state 1000) [?e1] =
     Inr (?s, [\<lparr>row_position = pos_2x, row_btc = 10, row_total = 1000,
                row_signals = sig_ADX, row_remark = remark_prefix @ pos_2x\<rparr>])"
    by (simp add: engine_defs policy_2x_flat_def)
  have st: "settle ?s (price ?e2) = Inr ?s1"
    by (simp add: settle_def py_div_def)
  have u: "update_signals (update_last_price ?s1 (price ?e2)) ?e2 = ?s2"
    by (simp add: update_signals_def update_last_price_def normalize_signal_canonical)
  have t: "resolve_target policy_2x_flat
             (update_signals (update_last_price ?s1 (price ?e2)) ?e2) = Inr pos_flat"
    unfolding u
    by (simp add: resolve_target_def policy_2x_flat_def only_position_def cfg_truthy_def
        POSITIONS_def)
  have n: "pos_flat \<noteq> position (update_signals (update_last_price ?s1 (price ?e2)) ?e2)"
    unfolding u by simp
  have v: "total_assets ?s2 60 = 120"
    by (simp add: total_assets_def)
  from switch_preserves_total [OF c p w r st t n]
  have "\<exists>s3. switch_position ?s2 60 pos_flat = Inr s3 \<and> total_assets s3 60 = 120"
    unfolding u using v by simp
  moreover have "0 < price ?e1 \<and> 0 < price ?e2" by simp
  ultimately show ?thesis using c w v by blast
qed

text \<open>
  Claim C2 as stated fails: with the same policy and the exit at price 40, the 2x
  settlement leaves the quantity \<open>- 2\<close>; the total read before the switch to flat
  is \<open>- 80\<close>, the switch stores \<open>- 80\<close> USD, and the total read after it is 0, since a
  balance that is not positive is not read.
\<close>

theorem switch_preserves_total_counterexample:
  "run_loop policy_2x_flat (init_state 1000)
     [\<lparr>price = 100, action_type = act_enter, sig_raw = sig_ADX\<rparr>] =
   Inr (\<lparr>usd = 0, btc = 10, position = pos_2x, active_signals = {sig_ADX},
         last_price = Some 100\<rparr>,
        [\<lparr>row_position = pos_2x, row_btc = 10, row_total = 1000, row_signals = sig_ADX,
          row_remark = remark_prefix @ pos_2x\<rparr>]) \<and>
   settle \<lparr>usd = 0, btc = 10, position = pos_2x, active_signals = {sig_ADX},
           last_price = Some 100\<rparr> 40 =
   Inr \<lparr>usd = 0, btc = - 2, position = pos_2x, active_signals = {sig_ADX},
        last_price = Some 100\<rparr> \<and>
   update_signals
     (update_last_price
        \<lparr>usd = 0, btc = - 2, position = pos_2x, active_signals = {sig_ADX},
         last_price = Some 100\<rparr> 40)
     \<lparr>price = 40, action_type = act_exit, sig_raw = sig_ADX\<rparr> =
   \<lparr>usd = 0, btc = - 2, position = pos_2x, active_signals = {}, last_price = Some 40\<rparr> \<and>
   resolve_target policy_2x_flat
     \<lparr>usd = 0, btc = - 2, position = pos_2x, active_signals = {}, last_price = Some 40\<rparr> =
   Inr pos_flat \<and>
   pos_flat \<noteq> pos_2x \<and> (0::real) < 40 \<and>
   total_assets
     \<lparr>usd = 0, btc = - 2, position = pos_2x, active_signals = {}, last_price = Some 40\<rparr>
     40 = - 80 \<and>
   switch_position
     \<lparr>usd = 0, btc = - 2, position = pos_2x, active_signals = {}, last_price = Some 40\<rparr>
     40 pos_flat =
   Inr \<lparr>usd = - 80, btc = 0, position = pos_flat, active_signals = {},
        last_price = Some 40\<rparr> \<and>
   total_assets
     \<lparr>usd = - 80, btc = 0, position = pos_flat, active_signals = {}, last_price = Some 40\<rparr>
     40 = 0"
  by (simp add: engine_defs policy_2x_flat_def)

text \<open>
  The theorem at the policy "no signal is flat, ADX is the 1x contract", for the event
  "exit ADX at 110" from the 1x contract opened at 100, and for the event after it.
\<close>

theorem last_price_after_step_witness:
  "step policy_1x_flat
     \<lparr>usd = 0, btc = 10, position = pos_1x, active_signals = {sig_ADX},
      last_price = Some 100\<rparr>
     \<lparr>price = 110, action_type = act_exit, sig_raw = sig_ADX\<rparr> =
   Inr (\<lparr>usd = 1210, btc = 0, position = pos_flat, active_signals = {},
         last_price = Some 110\<rparr>,
        \<lparr>row_position = pos_flat, row_btc = 0, row_total = 1210, row_signals = [],
         row_remark = remark_prefix @ pos_flat\<rparr>) \<and>
   last_price \<lparr>usd = 1210, btc = 0, position = pos_flat, active_signals = {},
         last_price = Some 110\<rparr> =
   (if position \<lparr>usd = 1210, btc = 0, position = pos_flat, active_signals = {},
         last_price = Some (110::real)\<rparr> \<in> {pos_1x, pos_2x} \<or>
       position \<lparr>usd = 0, btc = 10, position = pos_1x, active_signals = {sig_ADX},
      last_price = Some (100::real)\<rparr> \<in> {pos_1x, pos_2x}
    then Some 110 else None) \<and>
   pos_flat \<notin> {pos_1x, pos_2x} \<and>
   settle \<lparr>usd = 1210, btc = 0, position = pos_flat, active_signals = {},
         last_price = Some 110\<rparr> 90 =
   Inr \<lparr>usd = 1210, btc = 0, position = pos_flat, active_signals = {},
         last_price = Some 110\<rparr>"
proof -
  let ?s = "\<lparr>usd = 0, btc = 10, position = pos_1x, active_signals = {sig_ADX},
      last_price = Some (100::real)\<rparr>"
  let ?ev = "\<lparr>price = 110, action_type = act_exit, sig_raw = sig_ADX\<rparr>"
  let ?s' = "\<lparr>usd = 1210, btc = 0, position = pos_flat, active_signals = {},
         last_price = Some (110::real)\<rparr>"
  let ?r = "\<lparr>row_position = pos_flat, row_btc = 0, row_total = 1210, row_signals = [],
         row_remark = remark_prefix @ pos_flat\<rparr>"
  have st: "step policy_1x_flat ?s ?ev = Inr (?s', ?r)"
    by (simp add: engine_defs policy_1x_flat_def)
  have st2: "step policy_1x_flat ?s'
       \<lparr>price = 90, action_type = [], sig_raw = []\<rparr> =
     Inr (\<lparr>usd = 1210, btc = 0, position = pos_flat, active_signals = {},
           last_price = None\<rparr>,
          \<lparr>row_position = pos_flat, row_btc = 0, row_total = 1210, row_signals = [],
           row_remark = []\<rparr>)"
    by (simp add: engine_defs policy_1x_flat_def)
  have n: "position ?s' \<notin> {pos_1x, pos_2x}" by simp
  from last_price_after_step [OF st, of 0] last_price_after_step [OF st2, of 90] st n
  show ?thesis by simp
qed

text \<open>
  Claim C9 as stated fails: after "enter ADX at 100" and "exit ADX at 110" under that
  policy the position is flat and the reference price is still set, to 110.
\<close>

theorem last_price_iff_leveraged_counterexample:
  "run_loop policy_1x_flat (init_state 1000)
     [\<lparr>price = 100, action_type = act_enter, sig_raw = sig_ADX\<rparr>,
      \<lparr>price = 110, action_type = act_exit, sig_raw = sig_ADX\<rparr>] =
   Inr (\<lparr>usd = 1210, btc = 0, position = pos_flat, active_signals = {},
         last_price = Some 110\<rparr>,
        [\<lparr>row_position = pos_1x, row_btc = 10, row_total = 1000, row_signals = sig_ADX,
          row_remark = remark_prefix @ pos_1x\<rparr>,
         \<lparr>row_position = pos_flat, row_btc = 0, row_total = 1210, row_signals = [],
          row_remark = remark_prefix @ pos_flat\<rparr>]) \<and>
   pos_flat \<notin> {pos_1x, pos_2x} \<and> Some (110::real) \<noteq> None"
  by (simp add: engine_defs policy_1x_flat_def)

lemma settle_ok: "last_price s \<noteq> Some 0 \<Longrightarrow> \<exists>s1. settle s p = Inr s1"
  by (cases "last_price s") (simp_all add: settle_def py_div_def)


















lemma resolve_target_cong:
  assumes "\<forall>k. rel_option (\<lambda>c1 c2. \<exists>p. cfg_position c1 = Some p \<and> cfg_position c2 = Some p)
            (pol1 k) (pol2 k)"
  shows "resolve_target pol1 s = resolve_target pol2 s"
proof -
  have r: "rel_option (\<lambda>c1 c2. \<exists>p. cfg_position c1 = Some p \<and> cfg_position c2 = Some p)
            (pol1 (active_signals s)) (pol2 (active_signals s))"
    using assms by blast
  show ?thesis
  proof (cases "pol1 (active_signals s)")
    case None
    with r have "pol2 (active_signals s) = None" by simp
    with None show ?thesis by (simp add: resolve_target_def)
  next
    case (Some c1)
    with r have "\<exists>c2 p. pol2 (active_signals s) = Some c2 \<and>
      cfg_position c1 = Some p \<and> cfg_position c2 = Some p"
      by (cases "pol2 (active_signals s)") auto
    then obtain c2 p where "pol2 (active_signals s) = Some c2"
      "cfg_position c1 = Some p" "cfg_position c2 = Some p"
      by blast
    with Some show ?thesis by (simp add: resolve_target_def cfg_truthy_def)
  qed
qed

lemma step_cong:
  assumes "\<forall>k. rel_option (\<lambda>c1 c2. \<exists>p. cfg_position c1 = Some p \<and> cfg_position c2 = Some p)
            (pol1 k) (pol2 k)"
  shows "step pol1 s ev = step pol2 s ev"
  by (cases "settle s (price ev)") (simp_all add: step_def Let_def resolve_target_cong [OF assms])

lemma run_loop_cong:
  assumes "\<forall>k. rel_option (\<lambda>c1 c2. \<exists>p. cfg_position c1 = Some p \<and> cfg_position c2 = Some p)
            (pol1 k) (pol2 k)"
  shows "run_loop pol1 s evs = run_loop pol2 s evs"
  by (induction evs arbitrary: s) (auto simp: step_cong [OF assms] split: sum.splits)

text \<open>
  Claim C10. Two policies that have the same keys and, under each key, the same value
  of \<open>"position"\<close> (whatever their values of \<open>"ratio"\<close>, present or not) give the
  same result of \<open>run_backtest\<close> on the same events and initial capital, rows or
  exception. Opening a position takes the whole balance: the USD balance becomes 0 and
  the quantity is the balance divided by the price.
\<close>

theorem ratio_is_never_read:
  assumes "\<forall>k. rel_option (\<lambda>c1 c2. \<exists>p. cfg_position c1 = Some p \<and> cfg_position c2 = Some p)
            (pol1 k) (pol2 k)"
  shows "run_backtest pol1 events initial_usd = run_backtest pol2 events initial_usd \<and>
         (\<forall>s p t s'. t \<in> POSITIONS \<and> t \<noteq> pos_flat \<and> reopen s p t = Inr s' \<longrightarrow>
            usd s' = 0 \<and> btc s' = usd s / p)"
proof
  show "run_backtest pol1 events initial_usd = run_backtest pol2 events initial_usd"
    by (simp add: run_backtest_def run_loop_cong [OF assms])
next
  show "\<forall>s p t s'. t \<in> POSITIONS \<and> t \<noteq> pos_flat \<and> reopen s p t = Inr s' \<longrightarrow>
            usd s' = 0 \<and> btc s' = usd s / p"
    by (auto simp: POSITIONS_def reopen_def py_div_def split: if_splits)
qed

text \<open>
  The theorem at two policies with the positions flat and 1x contract and the ratios
  0 and 1, resp. 1/2 and 1/10: both give the same two rows.
\<close>

theorem ratio_is_never_read_witness:
  "(\<forall>k. rel_option (\<lambda>c1 c2. \<exists>p. cfg_position c1 = Some p \<and> cfg_position c2 = Some p)
            (policy_ratio_a k) (policy_ratio_b k)) \<and>
   policy_ratio_a {sig_ADX} \<noteq> policy_ratio_b {sig_ADX} \<and>
   run_backtest policy_ratio_a
     [\<lparr>price = 100, action_type = act_enter, sig_raw = sig_ADX\<rparr>,
      \<lparr>price = 110, action_type = act_exit, sig_raw = sig_ADX\<rparr>] 1000 =
   Inr [\<lparr>row_position = pos_1x, row_btc = 10, row_total = 1000, row_signals = sig_ADX,
         row_remark = remark_prefix @ pos_1x\<rparr>,
        \<lparr>row_position = pos_flat, row_btc = 0, row_total = 1210, row_signals = [],
         row_remark = remark_prefix @ pos_flat\<rparr>] \<and>
   run_backtest policy_ratio_b
     [\<lparr>price = 100, action_type = act_enter, sig_raw = sig_ADX\<rparr>,
      \<lparr>price = 110, action_type = act_exit, sig_raw = sig_ADX\<rparr>] 1000 =
   Inr [\<lparr>row_position = pos_1x, row_btc = 10, row_total = 1000, row_signals = sig_ADX,
         row_remark = remark_prefix @ pos_1x\<rparr>,
        \<lparr>row_position = pos_flat, row_btc = 0, row_total = 1210, row_signals = [],
         row_remark = remark_prefix @ pos_flat\<rparr>] \<and>
   pos_1x \<in> POSITIONS \<and> pos_1x \<noteq> pos_flat \<and>
   reopen \<lparr>usd = 1000, btc = 0, position = pos_flat, active_signals = {sig_ADX},
           last_price = None\<rparr> 100 pos_1x =
   Inr \<lparr>usd = 0, btc = 10, position = pos_flat, active_signals = {sig_ADX},
        last_price = Some 100\<rparr>"
proof -
  let ?evs = "[\<lparr>price = 100, action_type = act_enter, sig_raw = sig_ADX\<rparr>,
      \<lparr>price = 110, action_type = act_exit, sig_raw = sig_ADX\<rparr>]"
  have h: "\<forall>k. rel_option (\<lambda>c1 c2. \<exists>p. cfg_position c1 = Some p \<and> cfg_position c2 = Some p)
            (policy_ratio_a k) (policy_ratio_b k)"
    by (simp add: policy_ratio_a_def policy_ratio_b_def)
  have d: "policy_ratio_a {sig_ADX} \<noteq> policy_ratio_b {sig_ADX}"
    by (simp add: policy_ratio_a_def policy_ratio_b_def)
  have a: "run_backtest policy_ratio_a ?evs 1000 =
   Inr [\<lparr>row_position = pos_1x, row_btc = 10, row_total = 1000, row_signals = sig_ADX,
         row_remark = remark_prefix @ pos_1x\<rparr>,
        \<lparr>row_position = pos_flat, row_btc = 0, row_total = 1210, row_signals = [],
         row_remark = remark_prefix @ pos_flat\<rparr>]"
    by (simp add: run_backtest_def engine_defs policy_ratio_a_def)
  have v: "pos_1x \<in> POSITIONS \<and> pos_1x \<noteq> pos_flat" by (simp add: POSITIONS_def)
  have o: "reopen \<lparr>usd = 1000, btc = 0, position = pos_flat, active_signals = {sig_ADX},
           last_price = None\<rparr> 100 pos_1x =
   Inr \<lparr>usd = 0, btc = 10, position = pos_flat, active_signals = {sig_ADX},
        last_price = Some 100\<rparr>"
    by (simp add: reopen_def py_div_def)
  from ratio_is_never_read [OF h, of ?evs 1000] a
  have "run_backtest policy_ratio_b ?evs 1000 =
   Inr [\<lparr>row_position = pos_1x, row_btc = 10, row_total = 1000, row_signals = sig_ADX,
         row_remark = remark_prefix @ pos_1x\<rparr>,
        \<lparr>row_position = pos_flat, row_btc = 0, row_total = 1210, row_signals = [],
         row_remark = remark_prefix @ pos_flat\<rparr>]"
    by simp
  with h d a v o show ?thesis by blast
qed

text \<open>
  Claim C8, as amended. For one price move, from the reference price \<open>P0\<close> to the
  price of one event at which neither run switches: two accounts that differ only in
  holding the 1x and the 2x contract have the quantities multiplied by
  \<open>1 + (p - P0) / P0\<close> and \<open>1 + 2 * (p - P0) / P0\<close>, so the fractional change of
  the 2x quantity is twice that of the 1x quantity.
\<close>

theorem leverage_doubles_single_move:
  assumes "position a = pos_1x" and "b = a\<lparr>position := pos_2x\<rparr>"
    and "last_price a = Some P0" and "P0 \<noteq> 0"
    and "step pola a ev = Inr (a', ra)" and "position a' = pos_1x"
    and "step polb b ev = Inr (b', rb)" and "position b' = pos_2x"
  shows "btc a' = btc a * (1 + (price ev - P0) / P0) \<and>
         btc b' = btc b * (1 + 2 * (price ev - P0) / P0) \<and>
         (btc b' - btc b) / btc b = 2 * ((btc a' - btc a) / btc a)"
proof -
  have sa: "settle a (price ev) = Inr (a\<lparr>btc := btc a * (1 + 1 * (price ev - P0) / P0)\<rparr>)"
    using assms(1,3,4) by (rule settle_1x)
  have "position b = pos_2x" "last_price b = Some P0" "btc b = btc a"
    using assms(2,3) by simp_all
  note b = this
  have sb: "settle b (price ev) = Inr (b\<lparr>btc := btc b * (1 + 2 * (price ev - P0) / P0)\<rparr>)"
    using b(1,2) assms(4) by (rule settle_2x)
  from step_Inr [OF assms(5)] sa assms(1,6) have a': "btc a' = btc a * (1 + (price ev - P0) / P0)"
    by (auto simp: pre_switch_fields dest: switch_position_fields split: if_splits)
  from step_Inr [OF assms(7)] sb b(1) assms(8) have b': "btc b' = btc b * (1 + 2 * (price ev - P0) / P0)"
    by (auto simp: pre_switch_fields dest: switch_position_fields split: if_splits)
  have "(btc b' - btc b) / btc b = 2 * ((btc a' - btc a) / btc a)"
    unfolding a' b' b(3) by (cases "btc a = 0") (simp_all add: field_simps)
  with a' b' show ?thesis by simp
qed

text \<open>
  The theorem at the move from 100 to 110 with 10 units: 11 units and 12 units.
\<close>

theorem leverage_doubles_single_move_witness:
  "step scenario_B_policy
     \<lparr>usd = 0, btc = 10, position = pos_1x, active_signals = {sig_ADX},
      last_price = Some 100\<rparr>
     \<lparr>price = 110, action_type = [], sig_raw = []\<rparr> =
   Inr (\<lparr>usd = 0, btc = 11, position = pos_1x, active_signals = {sig_ADX},
         last_price = Some 110\<rparr>,
        \<lparr>row_position = pos_1x, row_btc = 11, row_total = 1210, row_signals = sig_ADX,
         row_remark = []\<rparr>) \<and>
   step policy_2x_only
     \<lparr>usd = 0, btc = 10, position = pos_2x, active_signals = {sig_ADX},
      last_price = Some 100\<rparr>
     \<lparr>price = 110, action_type = [], sig_raw = []\<rparr> =
   Inr (\<lparr>usd = 0, btc = 12, position = pos_2x, active_signals = {sig_ADX},
         last_price = Some 110\<rparr>,
        \<lparr>row_position = pos_2x, row_btc = 12, row_total = 1320, row_signals = sig_ADX,
         row_remark = []\<rparr>) \<and>
   ((12::real) - 10) / 10 = 2 * ((11 - 10) / 10)"
proof -
  let ?a = "\<lparr>usd = 0, btc = 10, position = pos_1x, active_signals = {sig_ADX},
      last_price = Some (100::real)\<rparr>"
  let ?b = "\<lparr>usd = 0, btc = 10, position = pos_2x, active_signals = {sig_ADX},
      last_price = Some (100::real)\<rparr>"
  let ?a' = "\<lparr>usd = 0, btc = 11, position = pos_1x, active_signals = {sig_ADX},
         last_price = Some (110::real)\<rparr>"
  let ?b' = "\<lparr>usd = 0, btc = 12, position = pos_2x, active_signals = {sig_ADX},
         last_price = Some (110::real)\<rparr>"
  let ?ev = "\<lparr>price = 110, action_type = [], sig_raw = []\<rparr>"
  have sa: "step scenario_B_policy ?a ?ev =
     Inr (?a', \<lparr>row_position = pos_1x, row_btc = 11, row_total = 1210,
                row_signals = sig_ADX, row_remark = []\<rparr>)"
    by (simp add: engine_defs scenario_B_policy_def)
  have sb: "step policy_2x_only ?b ?ev =
     Inr (?b', \<lparr>row_position = pos_2x, row_btc = 12, row_total = 1320,
                row_signals = sig_ADX, row_remark = []\<rparr>)"
    by (simp add: engine_defs policy_2x_only_def)
  have h: "position ?a = pos_1x" "?b = ?a\<lparr>position := pos_2x\<rparr>"
    "last_price ?a = Some 100" "(100::real) \<noteq> 0" "position ?a' = pos_1x"
    "position ?b' = pos_2x"
    by simp_all
  from leverage_doubles_single_move [OF h(1,2,3,4) sa h(5) sb h(6)]
  have "(btc ?b' - btc ?b) / btc ?b = 2 * ((btc ?a' - btc ?a) / btc ?a)"
    by blast
  then have "((12::real) - 10) / 10 = 2 * ((11 - 10) / 10)"
    by simp
  with sa sb show ?thesis by blast
qed

text \<open>
  Claim C8 as stated fails over a path with an event in between: from 100 over 110 to
  121, with no switch, the 1x quantity goes from 10 to \<open>121 / 10\<close>, the 2x quantity from
  10 to \<open>72 / 5\<close>, and \<open>0.44\<close> is not twice \<open>0.21\<close>: the settlements compound.
\<close>

theorem leverage_doubles_path_counterexample:
  "run_loop scenario_B_policy (init_state 1000)
     [\<lparr>price = 100, action_type = act_enter, sig_raw = sig_ADX\<rparr>] =
   Inr (\<lparr>usd = 0, btc = 10, position = pos_1x, active_signals = {sig_ADX},
         last_price = Some 100\<rparr>,
        [\<lparr>row_position = pos_1x, row_btc = 10, row_total = 1000, row_signals = sig_ADX,
          row_remark = remark_prefix @ pos_1x\<rparr>]) \<and>
   run_loop policy_2x_only (init_state 1000)
     [\<lparr>price = 100, action_type = act_enter, sig_raw = sig_ADX\<rparr>] =
   Inr (\<lparr>usd = 0, btc = 10, position = pos_2x, active_signals = {sig_ADX},
         last_price = Some 100\<rparr>,
        [\<lparr>row_position = pos_2x, row_btc = 10, row_total = 1000, row_signals = sig_ADX,
          row_remark = remark_prefix @ pos_2x\<rparr>]) \<and>
   run_loop scenario_B_policy
     \<lparr>usd = 0, btc = 10, position = pos_1x, active_signals = {sig_ADX},
      last_price = Some 100\<rparr>
     [\<lparr>price = 110, action_type = [], sig_raw = []\<rparr>,
      \<lparr>price = 121, action_type = [], sig_raw = []\<rparr>] =
   Inr (\<lparr>usd = 0, btc = 121 / 10, position = pos_1x, active_signals = {sig_ADX},
         last_price = Some 121\<rparr>,
        [\<lparr>row_position = pos_1x, row_btc = 11, row_total = 1210, row_signals = sig_ADX,
          row_remark = []\<rparr>,
         \<lparr>row_position = pos_1x, row_btc = 121 / 10, row_total = 14641 / 10,
          row_signals = sig_ADX, row_remark = []\<rparr>]) \<and>
   run_loop policy_2x_only
     \<lparr>usd = 0, btc = 10, position = pos_2x, active_signals = {sig_ADX},
      last_price = Some 100\<rparr>
     [\<lparr>price = 110, action_type = [], sig_raw = []\<rparr>,
      \<lparr>price = 121, action_type = [], sig_raw = []\<rparr>] =
   Inr (\<lparr>usd = 0, btc = 72 / 5, position = pos_2x, active_signals = {sig_ADX},
         last_price = Some 121\<rparr>,
        [\<lparr>row_position = pos_2x, row_btc = 12, row_total = 1320, row_signals = sig_ADX,
          row_remark = []\<rparr>,
         \<lparr>row_position = pos_2x, row_btc = 72 / 5, row_total = 8712 / 5,
          row_signals = sig_ADX, row_remark = []\<rparr>]) \<and>
   ((72 / 5 :: real) - 10) / 10 \<noteq> 2 * ((121 / 10 - 10) / 10)"
  by (simp add: engine_defs scenario_B_policy_def policy_2x_only_def)

section \<open>The two programs agree\<close>

lemma subset_SIGNALS:
  assumes "A \<subseteq> SIGNALS"
  shows "A = {} \<or> A = {sig_tempeture_index} \<or> A = {sig_120_ma} \<or> A = {sig_ADX} \<or>
         A = {sig_tempeture_index, sig_120_ma} \<or> A = {sig_tempeture_index, sig_ADX} \<or>
         A = {sig_120_ma, sig_ADX} \<or> A = {sig_tempeture_index, sig_120_ma, sig_ADX}"
proof -
  have "A \<in> Pow {sig_tempeture_index, sig_120_ma, sig_ADX}"
    using assms by (simp add: SIGNALS_def)
  then show ?thesis
    unfolding Pow_insert Pow_empty by (auto simp: insert_commute)
qed

lemma card_neq: "card A \<noteq> card B \<Longrightarrow> A \<noteq> B"
  by auto

lemma DEFAULT_POLICY_count:
  assumes "A \<subseteq> SIGNALS"
  shows "DEFAULT_POLICY A = Some (only_position (script_target (card A)))"
proof -
  have d1: "{sig_tempeture_index, sig_120_ma} \<noteq> {sig_tempeture_index, sig_120_ma, sig_ADX}"
    "{sig_tempeture_index, sig_ADX} \<noteq> {sig_tempeture_index, sig_120_ma, sig_ADX}"
    "{sig_120_ma, sig_ADX} \<noteq> {sig_tempeture_index, sig_120_ma, sig_ADX}"
    by (rule card_neq, simp add: sig_distinct)+
  have d2: "{sig_tempeture_index, sig_120_ma} \<noteq> {sig_tempeture_index, sig_ADX}"
    "{sig_tempeture_index, sig_120_ma} \<noteq> {sig_120_ma, sig_ADX}"
    "{sig_tempeture_index, sig_ADX} \<noteq> {sig_120_ma, sig_ADX}"
    by (simp_all add: doubleton_eq_iff sig_distinct)
  from subset_SIGNALS [OF assms] show ?thesis
    by (elim disjE)
      (simp_all add: DEFAULT_POLICY_def script_target_def sig_distinct d1 d2 d1 [symmetric]
        d2 [symmetric])
qed

lemma settle_sim:
  assumes "same_account s b"
  shows "rel_sum (=) same_account (settle s p) (script_settle b p)"
  using assms
  by (cases "script_last_price b")
    (auto simp: same_account_def settle_def script_settle_def py_div_def)

lemma pre_switch_sim:
  assumes "same_account s1 b1"
  shows "same_account (update_signals (update_last_price s1 p) ev)
           (script_update_signals (script_update_last_price b1 p) ev)"
  using assms
  by (auto simp: same_account_def update_signals_def update_last_price_def
      script_update_signals_def script_update_last_price_def)

lemma script_target_valid: "script_target n \<in> POSITIONS"
  by (simp add: script_target_def POSITIONS_def)

lemma resolve_target_DEFAULT:
  assumes "active_signals s \<subseteq> SIGNALS"
  shows "resolve_target DEFAULT_POLICY s = Inr (script_target (card (active_signals s)))"
  using script_target_valid [of "card (active_signals s)"]
  by (simp add: resolve_target_def DEFAULT_POLICY_count [OF assms] only_position_def
      cfg_truthy_def)

lemma switch_sim:
  assumes "same_account s b" "position s \<in> POSITIONS" "t \<in> POSITIONS"
  shows "rel_sum (=) (\<lambda>s' (b', remark). same_account s' b')
           (switch_position s p t) (script_switch b p t n)"
  using assms
  by (auto simp: same_account_def POSITIONS_def switch_position_def script_switch_def
      liquidate_def script_liquidate_def reopen_def script_reopen_def py_div_def)

lemma row_sim:
  "same_account s b \<Longrightarrow> same_columns (make_row s p r) (script_row b p r')"
  by (simp add: same_account_def same_columns_def make_row_def script_row_def
      total_assets_def)

lemma step_sim:
  assumes sa: "same_account s b" and v: "position s \<in> POSITIONS"
    and a: "active_signals s \<subseteq> SIGNALS" and n: "normalize_signal (sig_raw ev) \<in> SIGNALS"
  shows "rel_sum (=) step_agrees (step DEFAULT_POLICY s ev) (script_step b ev)"
proof (cases "settle s (price ev)")
  case (Inl e)
  with settle_sim [OF sa, of "price ev"] have "script_settle b (price ev) = Inl e"
    by (cases "script_settle b (price ev)") simp_all
  with Inl show ?thesis by (simp add: step_def script_step_def)
next
  case (Inr s1)
  with settle_sim [OF sa, of "price ev"] obtain b1 where
    b1: "script_settle b (price ev) = Inr b1" and s1: "same_account s1 b1"
    by (cases "script_settle b (price ev)") simp_all
  let ?s2 = "update_signals (update_last_price s1 (price ev)) ev"
  let ?b2 = "script_update_signals (script_update_last_price b1 (price ev)) ev"
  let ?t = "script_target (card (active_signals ?s2))"
  have s2: "same_account ?s2 ?b2" using s1 by (rule pre_switch_sim)
  have p2: "position ?s2 \<in> POSITIONS"
    using v settle_fields(1) [OF Inr] by (simp add: pre_switch_fields)
  have a2: "active_signals ?s2 \<subseteq> SIGNALS"
    using a n settle_fields(3) [OF Inr]
    by (auto simp: update_signals_def update_last_price_def)
  have t: "resolve_target DEFAULT_POLICY ?s2 = Inr ?t"
    using a2 by (rule resolve_target_DEFAULT)
  have eqs: "script_active_signals ?b2 = active_signals ?s2"
    "current_position ?b2 = position ?s2"
    using s2 by (simp_all add: same_account_def)
  show ?thesis
  proof (cases "?t = position ?s2")
    case True
    then have "step DEFAULT_POLICY s ev = Inr (?s2, make_row ?s2 (price ev) [])"
      using Inr t by (simp add: step_def Let_def)
    moreover have "script_step b ev = Inr (?b2, script_row ?b2 (price ev) [])"
      using b1 True eqs by (simp add: script_step_def Let_def)
    ultimately show ?thesis
      using s2 p2 a2 by (simp add: step_agrees_def row_sim)
  next
    case False
    have sw: "rel_sum (=) (\<lambda>s' (b', remark). same_account s' b')
           (switch_position ?s2 (price ev) ?t)
           (script_switch ?b2 (price ev) ?t (card (active_signals ?s2)))"
      using s2 p2 script_target_valid by (rule switch_sim)
    show ?thesis
    proof (cases "switch_position ?s2 (price ev) ?t")
      case (Inl e)
      with sw have "script_switch ?b2 (price ev) ?t (card (active_signals ?s2)) = Inl e"
        by (cases "script_switch ?b2 (price ev) ?t (card (active_signals ?s2))") simp_all
      moreover have "step DEFAULT_POLICY s ev = Inl e"
        using Inr t False Inl by (simp add: step_def Let_def)
      moreover have "script_step b ev =
          (case script_switch ?b2 (price ev) ?t (card (active_signals ?s2)) of
             Inl e \<Rightarrow> Inl e
           | Inr (s3, remark) \<Rightarrow> Inr (s3, script_row s3 (price ev) remark))"
        using b1 False eqs by (simp add: script_step_def Let_def)
      ultimately show ?thesis by simp
    next
      case (Inr s3)
      with sw obtain b3 remark where
        b3: "script_switch ?b2 (price ev) ?t (card (active_signals ?s2)) = Inr (b3, remark)"
        and s3: "same_account s3 b3"
        by (cases "script_switch ?b2 (price ev) ?t (card (active_signals ?s2))") auto
      have f: "position s3 = ?t" "active_signals s3 = active_signals ?s2"
        using Inr by (auto dest: switch_position_fields)
      have "step DEFAULT_POLICY s ev = Inr (s3, make_row s3 (price ev) (remark_prefix @ ?t))"
        using \<open>settle s (price ev) = Inr s1\<close> t False Inr by (simp add: step_def Let_def)
      moreover have "script_step b ev = Inr (b3, script_row b3 (price ev) remark)"
        using b1 False eqs b3 by (simp add: script_step_def Let_def)
      ultimately show ?thesis
        using s3 a2 f script_target_valid by (simp add: step_agrees_def row_sim)
    qed
  qed
qed

lemma loop_sim:
  assumes "same_account s b" "position s \<in> POSITIONS" "active_signals s \<subseteq> SIGNALS"
    "\<forall>ev\<in>set evs. normalize_signal (sig_raw ev) \<in> SIGNALS"
  shows "rel_sum (=) (\<lambda>x y. list_all2 same_columns (snd x) (snd y))
           (run_loop DEFAULT_POLICY s evs) (script_loop b evs)"
  using assms
proof (induction evs arbitrary: s b)
  case Nil
  then show ?case by simp
next
  case (Cons ev evs)
  have st: "rel_sum (=) step_agrees (step DEFAULT_POLICY s ev) (script_step b ev)"
    using Cons.prems by (intro step_sim) simp_all
  show ?case
  proof (cases "step DEFAULT_POLICY s ev")
    case (Inl e)
    with st have "script_step b ev = Inl e"
      by (cases "script_step b ev") simp_all
    with Inl show ?thesis by simp
  next
    case (Inr x)
    with st obtain y where y: "script_step b ev = Inr y" and xy: "step_agrees x y"
      by (cases "script_step b ev") simp_all
    obtain s' r where x: "x = (s', r)" by (cases x)
    obtain b' r' where y': "y = (b', r')" by (cases y)
    have ih: "rel_sum (=) (\<lambda>x y. list_all2 same_columns (snd x) (snd y))
           (run_loop DEFAULT_POLICY s' evs) (script_loop b' evs)"
      using xy x y' Cons.prems(4) by (intro Cons.IH) (simp_all add: step_agrees_def)
    have c: "same_columns r r'" using xy x y' by (simp add: step_agrees_def)
    show ?thesis
    proof (cases "run_loop DEFAULT_POLICY s' evs")
      case (Inl e)
      with ih have "script_loop b' evs = Inl e"
        by (cases "script_loop b' evs") simp_all
      with Inl Inr x y y' show ?thesis by simp
    next
      case (Inr z)
      with ih obtain z' where z': "script_loop b' evs = Inr z'"
        and zz: "list_all2 same_columns (snd z) (snd z')"
        by (cases "script_loop b' evs") simp_all
      with Inr \<open>step DEFAULT_POLICY s ev = Inr x\<close> x y y' c show ?thesis
        by (cases z, cases z') simp
    qed
  qed
qed

lemma init_sim: "same_account (init_state 1000) script_init"
  by (simp add: same_account_def init_state_def script_init_def)

lemma default_run_example:
  "run_backtest DEFAULT_POLICY
     [\<lparr>price = 100, action_type = act_enter, sig_raw = sig_tempeture_index\<rparr>,
      \<lparr>price = 110, action_type = act_enter, sig_raw = sig_120_ma @ [32, 117, 112]\<rparr>,
      \<lparr>price = 121, action_type = act_enter, sig_raw = sig_ADX\<rparr>,
      \<lparr>price = 110, action_type = act_exit, sig_raw = sig_tempeture_index\<rparr>] 1000 =
   Inr [\<lparr>row_position = pos_spot, row_btc = 10, row_total = 1000,
         row_signals = sig_tempeture_index, row_remark = remark_prefix @ pos_spot\<rparr>,
        \<lparr>row_position = pos_1x, row_btc = 10, row_total = 1100,
         row_signals = sig_120_ma @ [44] @ sig_tempeture_index,
         row_remark = remark_prefix @ pos_1x\<rparr>,
        \<lparr>row_position = pos_2x, row_btc = 11, row_total = 1331,
         row_signals = sig_120_ma @ [44] @ sig_ADX @ [44] @ sig_tempeture_index,
         row_remark = remark_prefix @ pos_2x\<rparr>,
        \<lparr>row_position = pos_1x, row_btc = 9, row_total = 990,
         row_signals = sig_120_ma @ [44] @ sig_ADX,
         row_remark = remark_prefix @ pos_1x\<rparr>]"
proof -
  have n: "normalize_signal (sig_120_ma @ [32, 117, 112]) = sig_120_ma"
    by (simp add: normalize_signal_def sig_defs sublist_code)
  show ?thesis
    by (simp add: run_backtest_def step_def settle_def init_state_def update_last_price_def
        update_signals_def resolve_target_def only_position_def cfg_truthy_def POSITIONS_def
        switch_position_def liquidate_def reopen_def py_div_def make_row_def total_assets_def
        normalize_signal_canonical n DEFAULT_POLICY_count SIGNALS_def script_target_def
        sig_distinct sig_le insert_commute insert_Diff_if)
qed

lemma switch_position_ok:
  assumes "p \<noteq> 0"
  shows "\<exists>s'. switch_position s p t = Inr s'"
  using assms by (simp add: switch_position_def reopen_def py_div_def)

lemma step_DEFAULT_ok:
  assumes a: "active_signals s \<subseteq> SIGNALS" and n: "normalize_signal (sig_raw ev) \<in> SIGNALS"
    and p: "0 < price ev" and l: "case last_price s of None \<Rightarrow> True | Some l \<Rightarrow> 0 < l"
  shows "\<exists>s' r. step DEFAULT_POLICY s ev = Inr (s', r) \<and> active_signals s' \<subseteq> SIGNALS \<and>
           (case last_price s' of None \<Rightarrow> True | Some l \<Rightarrow> 0 < l)"
proof -
  have "last_price s \<noteq> Some 0" using l by (auto split: option.splits)
  then obtain s1 where s1: "settle s (price ev) = Inr s1"
    using settle_ok by blast
  let ?s2 = "update_signals (update_last_price s1 (price ev)) ev"
  let ?t = "script_target (card (active_signals ?s2))"
  have a2: "active_signals ?s2 \<subseteq> SIGNALS"
    using a n settle_fields(3) [OF s1]
    by (auto simp: update_signals_def update_last_price_def)
  have t: "resolve_target DEFAULT_POLICY ?s2 = Inr ?t"
    using a2 by (rule resolve_target_DEFAULT)
  have "\<exists>s' r. step DEFAULT_POLICY s ev = Inr (s', r) \<and>
          active_signals s' = active_signals ?s2"
  proof (cases "?t = position ?s2")
    case True
    then show ?thesis using s1 t by (simp add: step_def Let_def)
  next
    case False
    from p have "price ev \<noteq> 0" by simp
    then obtain s3 where s3: "switch_position ?s2 (price ev) ?t = Inr s3"
      using switch_position_ok by blast
    then have "active_signals s3 = active_signals ?s2"
      by (rule switch_position_fields)
    then show ?thesis using s1 t False s3 by (simp add: step_def Let_def)
  qed
  then obtain s' r where st: "step DEFAULT_POLICY s ev = Inr (s', r)"
    and as: "active_signals s' = active_signals ?s2"
    by blast
  have "case last_price s' of None \<Rightarrow> True | Some l \<Rightarrow> 0 < l"
    using step_last_price [OF st] p by simp
  with st as a2 show ?thesis by simp
qed

lemma run_loop_DEFAULT_ok:
  assumes "active_signals s \<subseteq> SIGNALS"
    and "\<forall>ev\<in>set evs. normalize_signal (sig_raw ev) \<in> SIGNALS"
    and "\<forall>ev\<in>set evs. 0 < price ev"
    and "case last_price s of None \<Rightarrow> True | Some l \<Rightarrow> 0 < l"
  shows "\<exists>sf rows. run_loop DEFAULT_POLICY s evs = Inr (sf, rows)"
  using assms
proof (induction evs arbitrary: s)
  case Nil
  then show ?case by simp
next
  case (Cons ev evs)
  have "\<exists>s' r. step DEFAULT_POLICY s ev = Inr (s', r) \<and> active_signals s' \<subseteq> SIGNALS \<and>
           (case last_price s' of None \<Rightarrow> True | Some l \<Rightarrow> 0 < l)"
    using Cons.prems by (intro step_DEFAULT_ok) simp_all
  then obtain s' r where st: "step DEFAULT_POLICY s ev = Inr (s', r)"
    and a: "active_signals s' \<subseteq> SIGNALS"
    and l: "case last_price s' of None \<Rightarrow> True | Some l \<Rightarrow> 0 < l"
    by blast
  have "\<exists>sf rows. run_loop DEFAULT_POLICY s' evs = Inr (sf, rows)"
    using a l Cons.prems(2,3) by (intro Cons.IH) simp_all
  then show ?case using st by auto
qed

text \<open>
  Claim C6. On events whose labels all normalize to one of the three signals, the
  script with the fixed, count-based policy and \<open>run_backtest\<close> with
  \<open>DEFAULT_POLICY\<close> and 1000 USD give the same result: the same exception, or row
  lists of the same length that agree, row by row, in position, quantity, total value
  and active signals (the remark is not compared). With positive prices neither fails,
  and both return rows.
\<close>

theorem script_agrees_with_default_policy:
  assumes "\<forall>ev\<in>set events. normalize_signal (sig_raw ev) \<in> SIGNALS"
  shows "rel_sum (=) (list_all2 same_columns)
           (run_backtest DEFAULT_POLICY events 1000) (script_run events) \<and>
         ((\<forall>ev\<in>set events. 0 < price ev) \<longrightarrow>
            (\<exists>rows rows'. run_backtest DEFAULT_POLICY events 1000 = Inr rows \<and>
               script_run events = Inr rows' \<and> list_all2 same_columns rows rows'))"
proof -
  have sim: "rel_sum (=) (\<lambda>x y. list_all2 same_columns (snd x) (snd y))
           (run_loop DEFAULT_POLICY (init_state 1000) events) (script_loop script_init events)"
    using init_sim assms
    by (intro loop_sim) (simp_all add: init_state_def POSITIONS_def)
  have rel: "rel_sum (=) (list_all2 same_columns)
           (run_backtest DEFAULT_POLICY events 1000) (script_run events)"
    using sim
    by (cases "run_loop DEFAULT_POLICY (init_state 1000) events";
        cases "script_loop script_init events")
      (auto simp: run_backtest_def script_run_def)
  have "\<exists>rows rows'. run_backtest DEFAULT_POLICY events 1000 = Inr rows \<and>
               script_run events = Inr rows' \<and> list_all2 same_columns rows rows'"
    if pos: "\<forall>ev\<in>set events. 0 < price ev"
  proof -
    have "\<exists>sf rows. run_loop DEFAULT_POLICY (init_state 1000) events = Inr (sf, rows)"
      using assms pos by (intro run_loop_DEFAULT_ok) (simp_all add: init_state_def)
    then obtain rows where r: "run_backtest DEFAULT_POLICY events 1000 = Inr rows"
      by (auto simp: run_backtest_def)
    with rel show ?thesis
      by (cases "script_run events") auto
  qed
  with rel show ?thesis by blast
qed

lemma script_run_example:
  "script_run
     [\<lparr>price = 100, action_type = act_enter, sig_raw = sig_tempeture_index\<rparr>,
      \<lparr>price = 110, action_type = act_enter, sig_raw = sig_120_ma @ [32, 117, 112]\<rparr>,
      \<lparr>price = 121, action_type = act_enter, sig_raw = sig_ADX\<rparr>,
      \<lparr>price = 110, action_type = act_exit, sig_raw = sig_tempeture_index\<rparr>] =
   Inr [\<lparr>row_position = pos_spot, row_btc = 10, row_total = 1000,
         row_signals = sig_tempeture_index,
         row_remark = [0x5207, 0x6362, 0x4E3A] @ pos_spot @ [0x28, 49] @
                      [0x20, 0x73, 0x69, 0x67, 0x6E, 0x61, 0x6C, 0x29]\<rparr>,
        \<lparr>row_position = pos_1x, row_btc = 10, row_total = 1100,
         row_signals = sig_120_ma @ [44] @ sig_tempeture_index,
         row_remark = [0x5207, 0x6362, 0x4E3A] @ pos_1x\<rparr>,
        \<lparr>row_position = pos_2x, row_btc = 11, row_total = 1331,
         row_signals = sig_120_ma @ [44] @ sig_ADX @ [44] @ sig_tempeture_index,
         row_remark = [0x5207, 0x6362, 0x4E3A] @ pos_2x\<rparr>,
        \<lparr>row_position = pos_1x, row_btc = 9, row_total = 990,
         row_signals = sig_120_ma @ [44] @ sig_ADX,
         row_remark = [0x5207, 0x6362, 0x4E3A] @ pos_1x\<rparr>]"
proof -
  have n: "normalize_signal (sig_120_ma @ [32, 117, 112]) = sig_120_ma"
    by (simp add: normalize_signal_def sig_defs sublist_code)
  show ?thesis
    by (simp add: script_run_def script_step_def script_settle_def script_init_def
        script_update_last_price_def script_update_signals_def script_target_def
        script_switch_def script_liquidate_def script_reopen_def py_div_def script_row_def
        normalize_signal_canonical n sig_distinct sig_le insert_commute insert_Diff_if)
qed

text \<open>
  The theorem at four events with positive prices whose labels normalize to the three
  signals (one of them is \<open>"120_ma up"\<close>): both programs return four rows, equal in all
  columns but the remark.
\<close>

theorem script_agrees_with_default_policy_witness:
  "normalize_signal sig_tempeture_index \<in> SIGNALS \<and>
   normalize_signal (sig_120_ma @ [32, 117, 112]) \<in> SIGNALS \<and>
   normalize_signal sig_ADX \<in> SIGNALS \<and>
   run_backtest DEFAULT_POLICY
     [\<lparr>price = 100, action_type = act_enter, sig_raw = sig_tempeture_index\<rparr>,
      \<lparr>price = 110, action_type = act_enter, sig_raw = sig_120_ma @ [32, 117, 112]\<rparr>,
      \<lparr>price = 121, action_type = act_enter, sig_raw = sig_ADX\<rparr>,
      \<lparr>price = 110, action_type = act_exit, sig_raw = sig_tempeture_index\<rparr>] 1000 =
   Inr [\<lparr>row_position = pos_spot, row_btc = 10, row_total = 1000,
         row_signals = sig_tempeture_index, row_remark = remark_prefix @ pos_spot\<rparr>,
        \<lparr>row_position = pos_1x, row_btc = 10, row_total = 1100,
         row_signals = sig_120_ma @ [44] @ sig_tempeture_index,
         row_remark = remark_prefix @ pos_1x\<rparr>,
        \<lparr>row_position = pos_2x, row_btc = 11, row_total = 1331,
         row_signals = sig_120_ma @ [44] @ sig_ADX @ [44] @ sig_tempeture_index,
         row_remark = remark_prefix @ pos_2x\<rparr>,
        \<lparr>row_position = pos_1x, row_btc = 9, row_total = 990,
         row_signals = sig_120_ma @ [44] @ sig_ADX,
         row_remark = remark_prefix @ pos_1x\<rparr>] \<and>
   rel_sum (=) (list_all2 same_columns)
     (run_backtest DEFAULT_POLICY
        [\<lparr>price = 100, action_type = act_enter, sig_raw = sig_tempeture_index\<rparr>,
         \<lparr>price = 110, action_type = act_enter, sig_raw = sig_120_ma @ [32, 117, 112]\<rparr>,
         \<lparr>price = 121, action_type = act_enter, sig_raw = sig_ADX\<rparr>,
         \<lparr>price = 110, action_type = act_exit, sig_raw = sig_tempeture_index\<rparr>] 1000)
     (script_run
        [\<lparr>price = 100, action_type = act_enter, sig_raw = sig_tempeture_index\<rparr>,
         \<lparr>price = 110, action_type = act_enter, sig_raw = sig_120_ma @ [32, 117, 112]\<rparr>,
         \<lparr>price = 121, action_type = act_enter, sig_raw = sig_ADX\<rparr>,
         \<lparr>price = 110, action_type = act_exit, sig_raw = sig_tempeture_index\<rparr>]) \<and>
   script_run
     [\<lparr>price = 100, action_type = act_enter, sig_raw = sig_tempeture_index\<rparr>,
      \<lparr>price = 110, action_type = act_enter, sig_raw = sig_120_ma @ [32, 117, 112]\<rparr>,
      \<lparr>price = 121, action_type = act_enter, sig_raw = sig_ADX\<rparr>,
      \<lparr>price = 110, action_type = act_exit, sig_raw = sig_tempeture_index\<rparr>] =
   Inr [\<lparr>row_position = pos_spot, row_btc = 10, row_total = 1000,
         row_signals = sig_tempeture_index,
         row_remark = [0x5207, 0x6362, 0x4E3A] @ pos_spot @ [0x28, 49] @
                      [0x20, 0x73, 0x69, 0x67, 0x6E, 0x61, 0x6C, 0x29]\<rparr>,
        \<lparr>row_position = pos_1x, row_btc = 10, row_total = 1100,
         row_signals = sig_120_ma @ [44] @ sig_tempeture_index,
         row_remark = [0x5207, 0x6362, 0x4E3A] @ pos_1x\<rparr>,
        \<lparr>row_position = pos_2x, row_btc = 11, row_total = 1331,
         row_signals = sig_120_ma @ [44] @ sig_ADX @ [44] @ sig_tempeture_index,
         row_remark = [0x5207, 0x6362, 0x4E3A] @ pos_2x\<rparr>,
        \<lparr>row_position = pos_1x, row_btc = 9, row_total = 990,
         row_signals = sig_120_ma @ [44] @ sig_ADX,
         row_remark = [0x5207, 0x6362, 0x4E3A] @ pos_1x\<rparr>]"
proof -
  let ?evs = "[\<lparr>price = 100, action_type = act_enter, sig_raw = sig_tempeture_index\<rparr>,
      \<lparr>price = 110, action_type = act_enter, sig_raw = sig_120_ma @ [32, 117, 112]\<rparr>,
      \<lparr>price = 121, action_type = act_enter, sig_raw = sig_ADX\<rparr>,
      \<lparr>price = 110, action_type = act_exit, sig_raw = sig_tempeture_index\<rparr>]"
  have n: "normalize_signal (sig_120_ma @ [32, 117, 112]) = sig_120_ma"
    by (simp add: normalize_signal_def sig_defs sublist_code)
  have m: "normalize_signal sig_tempeture_index \<in> SIGNALS"
    "normalize_signal (sig_120_ma @ [32, 117, 112]) \<in> SIGNALS"
    "normalize_signal sig_ADX \<in> SIGNALS"
    by (simp_all add: n normalize_signal_canonical SIGNALS_def)
  then have h: "\<forall>ev\<in>set ?evs. normalize_signal (sig_raw ev) \<in> SIGNALS"
    by simp
  from script_agrees_with_default_policy [OF h]
  have "rel_sum (=) (list_all2 same_columns)
          (run_backtest DEFAULT_POLICY ?evs 1000) (script_run ?evs)"
    by blast
  with m default_run_example script_run_example show ?thesis
    by blast
qed

end
